theory Spec2Isabelle
  imports Complex_Main "HOL-Library.Multiset"
begin

section \<open>The relational store\<close>

text \<open>
  The handlers are TypeScript functions over a managed relational database. The tables
  are lists of rows, in the shape the handlers read and write them. Amounts and balances
  are JavaScript numbers; they are taken here as exact rationals (neither the rounding of
  binary floating point nor that of the column type numeric(15,2) is part of the model).
  Text columns are strings, timestamps are instants counted in milliseconds. The column
  updated_at, kept by a database trigger and never written by a handler, is left out.
\<close>

record account =
  acc_id :: string
  acc_user_id :: string
  acc_number :: string
  acc_type :: string
  acc_balance :: rat
  acc_currency :: string
  acc_status :: string
  acc_created_at :: nat

record transaction_row =
  tx_id :: string
  tx_account_id :: "string option"
  tx_account_number :: "string option"
  tx_type :: string
  tx_amount :: rat
  tx_balance_after :: rat
  tx_description :: string
  tx_reference_number :: "string option"
  tx_status :: string
  tx_created_at :: nat

record transfer_row =
  tr_id :: string
  tr_from_account_id :: string
  tr_to_account_id :: string
  tr_amount :: rat
  tr_reference_number :: "string option"
  tr_notes :: "string option"
  tr_status :: string
  tr_completed_at :: "nat option"

record profile_row =
  pr_id :: string
  pr_full_name :: string
  pr_phone :: "string option"
  pr_date_of_birth :: "string option"
  pr_address :: "string option"

record db =
  accounts :: "account list"
  transactions :: "transaction_row list"
  transfers :: "transfer_row list"
  profiles :: "profile_row list"

section \<open>Database calls, their trace and their failures\<close>

text \<open>
  Every call a handler issues to the database is named by the place in the source that
  issues it. A handler has no loop, so each place is reached at most once in a request.
\<close>

datatype site =
    CT_select_from | CT_select_to | CT_rpc_reference | CT_update_from | CT_update_to
  | CT_rollback_from | CT_insert_transfer | CT_insert_transactions
  | TX_select_account | TX_update_balance | TX_insert_transaction
  | TR_select_from | TR_select_to | TR_rpc_reference | TR_update_from | TR_update_to
  | TR_insert_transfer | TR_insert_transactions
  | GB_select_account | GB_select_profile | GB_select_all_accounts
  | GA_select_profile | GA_select_accounts
  | GT_select_account | GT_select_transactions | GT_select_transfers
  | CA_rpc_account_number | CA_insert_account | CA_rpc_reference | CA_insert_transaction
  | SU_insert_profile

datatype write_op =
    Set_balance string rat
  | Add_transfer transfer_row
  | Add_transactions "transaction_row list"
  | Add_account account
  | Add_profile profile_row

datatype db_call = Read site | Rpc site | Write site write_op

fun call_site :: "db_call \<Rightarrow> site" where
  "call_site (Read k) = k"
| "call_site (Rpc k) = k"
| "call_site (Write k w) = k"

fun is_write :: "db_call \<Rightarrow> bool" where
  "is_write (Write k w) = True"
| "is_write c = False"

record user =
  user_id :: string
  user_email :: string

datatype signup_result = SignUp_error string | SignUp_no_user | SignUp_user user

text \<open>
  What a request meets outside the handler: the identity provider (\<open>getUser\<close> gives no
  user for a token it rejects), which database calls come back with an error (\<open>fails\<close>;
  a failed call changes no table), the values the database generates, and the clocks.
\<close>

record env =
  getUser :: "string \<Rightarrow> user option"
  signUp :: "string \<Rightarrow> string \<Rightarrow> signup_result"
  fails :: "site \<Rightarrow> bool"
  generate_reference_number :: string
  generate_account_number :: string
  gen_random_uuid :: "site \<Rightarrow> nat \<Rightarrow> string"
  db_now :: nat
  clock_now :: nat

record st =
  st_db :: db
  st_trace :: "db_call list"

text \<open>A request starts with the tables as they are and no call issued.\<close>

definition start :: "db \<Rightarrow> st" where
  "start d = \<lparr>st_db = d, st_trace = []\<rparr>"

definition log_call :: "db_call \<Rightarrow> st \<Rightarrow> st" where
  "log_call c s = s\<lparr>st_trace := st_trace s @ [c]\<rparr>"

definition select_from :: "env \<Rightarrow> site \<Rightarrow> (db \<Rightarrow> 'a list) \<Rightarrow> ('a \<Rightarrow> bool) \<Rightarrow> st \<Rightarrow> 'a list option \<times> st" where
  "select_from e k tbl p s =
     (if fails e k then None else Some (filter p (tbl (st_db s))), log_call (Read k) s)"

text \<open>\<open>.single()\<close> is an error unless exactly one row matches; \<open>.maybeSingle()\<close> gives
  null for no row and is an error for more than one. \<open>None\<close> is the error.\<close>

definition single :: "'a list option \<Rightarrow> 'a option" where
  "single r = (case r of Some [x] \<Rightarrow> Some x | _ \<Rightarrow> None)"

definition maybeSingle :: "'a list option \<Rightarrow> 'a option option" where
  "maybeSingle r =
     (case r of Some [] \<Rightarrow> Some None | Some [x] \<Rightarrow> Some (Some x) | _ \<Rightarrow> None)"

text \<open>A call of a stored function: its data is null when the call failed.\<close>

definition rpc_data :: "env \<Rightarrow> site \<Rightarrow> string \<Rightarrow> string option" where
  "rpc_data e k v = (if fails e k then None else Some v)"

definition rpc :: "env \<Rightarrow> site \<Rightarrow> string \<Rightarrow> st \<Rightarrow> string option \<times> st" where
  "rpc e k v s = (rpc_data e k v, log_call (Rpc k) s)"

definition set_balance :: "(account \<Rightarrow> string) \<Rightarrow> string \<Rightarrow> rat \<Rightarrow> db \<Rightarrow> db" where
  "set_balance col key v d =
     d\<lparr>accounts := map (\<lambda>a. if col a = key then a\<lparr>acc_balance := v\<rparr> else a) (accounts d)\<rparr>"

text \<open>\<open>.update({ balance: v }).eq(col, key)\<close>; the result is whether the call failed.\<close>

definition update_balance :: "env \<Rightarrow> site \<Rightarrow> (account \<Rightarrow> string) \<Rightarrow> string \<Rightarrow> rat \<Rightarrow> st \<Rightarrow> bool \<times> st" where
  "update_balance e k col key v s =
     (let s' = log_call (Write k (Set_balance key v)) s in
      if fails e k then (True, s')
      else (False, s'\<lparr>st_db := set_balance col key v (st_db s')\<rparr>))"

definition insert_transfer :: "env \<Rightarrow> site \<Rightarrow> transfer_row \<Rightarrow> st \<Rightarrow> transfer_row option \<times> st" where
  "insert_transfer e k r s =
     (let s' = log_call (Write k (Add_transfer r)) s in
      if fails e k then (None, s')
      else (Some r, s'\<lparr>st_db := (st_db s')\<lparr>transfers := transfers (st_db s') @ [r]\<rparr>\<rparr>))"

definition insert_transactions :: "env \<Rightarrow> site \<Rightarrow> transaction_row list \<Rightarrow> st \<Rightarrow> transaction_row list option \<times> st" where
  "insert_transactions e k rs s =
     (let s' = log_call (Write k (Add_transactions rs)) s in
      if fails e k then (None, s')
      else (Some rs, s'\<lparr>st_db := (st_db s')\<lparr>transactions := transactions (st_db s') @ rs\<rparr>\<rparr>))"

definition insert_account :: "env \<Rightarrow> site \<Rightarrow> account \<Rightarrow> st \<Rightarrow> account option \<times> st" where
  "insert_account e k r s =
     (let s' = log_call (Write k (Add_account r)) s in
      if fails e k then (None, s')
      else (Some r, s'\<lparr>st_db := (st_db s')\<lparr>accounts := accounts (st_db s') @ [r]\<rparr>\<rparr>))"

definition insert_profile :: "env \<Rightarrow> site \<Rightarrow> profile_row \<Rightarrow> st \<Rightarrow> profile_row option \<times> st" where
  "insert_profile e k r s =
     (let s' = log_call (Write k (Add_profile r)) s in
      if fails e k then (None, s')
      else (Some r, s'\<lparr>st_db := (st_db s')\<lparr>profiles := profiles (st_db s') @ [r]\<rparr>\<rparr>))"

text \<open>\<open>.order(col, { ascending: false })\<close>. Rows with equal keys come in an order the
  database does not fix; here they come in the reverse of their order in the table.\<close>

definition order_desc :: "('a \<Rightarrow> nat) \<Rightarrow> 'a list option \<Rightarrow> 'a list option" where
  "order_desc f r = map_option (\<lambda>xs. rev (sort_key f xs)) r"

section \<open>Requests and responses\<close>

datatype http_method = OPTIONS | GET | POST | PUT | PATCH | DELETE | HEAD

text \<open>The columns of an account that get-balance and the account list select.\<close>

record account_summary =
  as_account_number :: string
  as_account_type :: string
  as_balance :: rat
  as_currency :: string
  as_status :: string
  as_created_at :: nat

definition summary :: "account \<Rightarrow> account_summary" where
  "summary a = \<lparr>as_account_number = acc_number a, as_account_type = acc_type a,
               as_balance = acc_balance a, as_currency = acc_currency a,
               as_status = acc_status a, as_created_at = acc_created_at a\<rparr>"

text \<open>The entries of the list get-transactions answers with: a transaction record or
  a transfer, each with the instant it is sorted by.\<close>

record transaction_entry =
  te_id :: string
  te_transaction_type :: string
  te_amount :: rat
  te_account_number :: "string option"
  te_balance_after :: rat
  te_description :: string
  te_reference_number :: "string option"
  te_status :: string
  te_created_at :: nat

record transfer_entry =
  fe_id :: string
  fe_from_account_number :: "string option"
  fe_to_account_number :: "string option"
  fe_amount :: rat
  fe_notes :: "string option"
  fe_reference_number :: "string option"
  fe_status :: string
  fe_created_at :: "nat option"

datatype entry = Transaction_entry transaction_entry | Transfer_entry transfer_entry

datatype resp_body =
    No_body
  | Error_body string
  | Thrown_body site
  | Json_error_body
  | Internal_server_error
  | Transfer_body "transfer_row option" "string option"
  | Transaction_body "transaction_row option"
  | Balance_body "profile_row option" user account_summary "account_summary list" rat
  | Accounts_body "profile_row option" "account_summary list" rat string
  | Transactions_body "entry list"
  | Account_body account
  | Signup_body user profile_row

record response =
  status :: nat
  body :: resp_body

definition error_response :: "nat \<Rightarrow> string \<Rightarrow> response" where
  "error_response n msg = \<lparr>status = n, body = Error_body msg\<rparr>"

text \<open>The catch block of a handler: status 500 with the message of the error thrown.\<close>

definition thrown :: "site \<Rightarrow> response" where
  "thrown k = \<lparr>status = 500, body = Thrown_body k\<rparr>"

text \<open>\<open>a || b\<close> on an optional string: the empty string is falsy too.\<close>

definition or_else :: "'c list option \<Rightarrow> 'a \<Rightarrow> ('c list \<Rightarrow> 'a) \<Rightarrow> 'a" where
  "or_else v dflt f = (case v of None \<Rightarrow> dflt | Some x \<Rightarrow> if x = [] then dflt else f x)"

text \<open>\<open>s.replace(pat, rep)\<close> with a string pattern replaces the first occurrence.\<close>

fun replace_first :: "string \<Rightarrow> string \<Rightarrow> string \<Rightarrow> string" where
  "replace_first pat rep [] = (if pat = [] then rep else [])"
| "replace_first pat rep (c # cs) =
     (if take (length pat) (c # cs) = pat then rep @ drop (length pat) (c # cs)
      else c # replace_first pat rep cs)"

text \<open>
  The authentication every handler but signup starts with: a missing (or empty)
  Authorization header and a token the identity provider rejects both end the request
  with status 401. No database call is involved.
\<close>

definition authenticate :: "env \<Rightarrow> string option \<Rightarrow> response + user" where
  "authenticate e authHeader =
     (case authHeader of
        None \<Rightarrow> Inl (error_response 401 ''Missing authorization header'')
      | Some h \<Rightarrow>
          if h = [] then Inl (error_response 401 ''Missing authorization header'')
          else (case getUser e (replace_first ''Bearer '' [] h) of
                  None \<Rightarrow> Inl (error_response 401 ''Unauthorized'')
                | Some u \<Rightarrow> Inr u))"

section \<open>create-transfer\<close>

record transfer_request =
  from_account_id :: string
  ct_to_account_number :: string
  ct_amount :: rat
  ct_notes :: "string option"

record ct_http =
  ct_method :: http_method
  ct_authorization :: "string option"
  ct_json :: "transfer_request option"

text \<open>The transfer record both transfer handlers insert, and the two transaction
  records of create-transfer: the amount negated on the source account, the amount
  itself on the destination account.\<close>

definition transfer_record :: "env \<Rightarrow> site \<Rightarrow> account \<Rightarrow> account \<Rightarrow> rat \<Rightarrow> string option \<Rightarrow> string option \<Rightarrow> transfer_row" where
  "transfer_record e k fromAccount toAccount amount refNumber notes =
     \<lparr>tr_id = gen_random_uuid e k 0,
      tr_from_account_id = acc_id fromAccount,
      tr_to_account_id = acc_id toAccount,
      tr_amount = amount,
      tr_reference_number = refNumber,
      tr_notes = notes,
      tr_status = ''completed'',
      tr_completed_at = Some (clock_now e)\<rparr>"

definition ct_records :: "env \<Rightarrow> transfer_request \<Rightarrow> account \<Rightarrow> account \<Rightarrow> string option \<Rightarrow> transaction_row list" where
  "ct_records e rq fromAccount toAccount refNumber =
     [\<lparr>tx_id = gen_random_uuid e CT_insert_transactions 0,
       tx_account_id = Some (acc_id fromAccount),
       tx_account_number = None,
       tx_type = ''transfer'',
       tx_amount = - ct_amount rq,
       tx_balance_after = acc_balance fromAccount - ct_amount rq,
       tx_description = ''Transfer to '' @ ct_to_account_number rq,
       tx_reference_number = refNumber,
       tx_status = ''completed'',
       tx_created_at = db_now e\<rparr>,
      \<lparr>tx_id = gen_random_uuid e CT_insert_transactions 1,
       tx_account_id = Some (acc_id toAccount),
       tx_account_number = None,
       tx_type = ''transfer'',
       tx_amount = ct_amount rq,
       tx_balance_after = acc_balance toAccount + ct_amount rq,
       tx_description = ''Transfer from '' @ acc_number fromAccount,
       tx_reference_number = refNumber,
       tx_status = ''completed'',
       tx_created_at = db_now e\<rparr>]"

text \<open>The handler from the generation of the reference number on: the two balance
  updates, the rollback, the transfer record and the two transaction records.\<close>

definition ct_execute :: "env \<Rightarrow> transfer_request \<Rightarrow> account \<Rightarrow> account \<Rightarrow> st \<Rightarrow> response \<times> st" where
  "ct_execute e rq fromAccount toAccount s0 =
     (case rpc e CT_rpc_reference (generate_reference_number e) s0 of (refNumber, s1) \<Rightarrow>
      (let newFromBalance = acc_balance fromAccount - ct_amount rq;
           newToBalance = acc_balance toAccount + ct_amount rq
       in
       (case update_balance e CT_update_from acc_id (acc_id fromAccount) newFromBalance s1 of
          (updateFromError, s2) \<Rightarrow>
        if updateFromError then (thrown CT_update_from, s2)
        else
        (case update_balance e CT_update_to acc_id (acc_id toAccount) newToBalance s2 of
           (updateToError, s3) \<Rightarrow>
         if updateToError then
           (case update_balance e CT_rollback_from acc_id (acc_id fromAccount)
                   (acc_balance fromAccount) s3 of
              (rollbackError, s4) \<Rightarrow> (thrown CT_update_to, s4))
         else
         (case insert_transfer e CT_insert_transfer
                 (transfer_record e CT_insert_transfer fromAccount toAccount (ct_amount rq)
                    refNumber (ct_notes rq)) s3 of
            (transfer, s4) \<Rightarrow>
          if transfer = None then (thrown CT_insert_transfer, s4)
          else
          (case insert_transactions e CT_insert_transactions
                  (ct_records e rq fromAccount toAccount refNumber) s4 of
             (inserted, s5) \<Rightarrow>
               (\<lparr>status = 200, body = Transfer_body transfer refNumber\<rparr>, s5)))))))"

text \<open>The handler after authentication and the parsing of the body: the guards.\<close>

definition ct_guarded :: "env \<Rightarrow> user \<Rightarrow> transfer_request \<Rightarrow> st \<Rightarrow> response \<times> st" where
  "ct_guarded e u rq s0 =
     (if ct_amount rq \<le> 0 then (error_response 400 ''Amount must be greater than 0'', s0)
      else
      (case select_from e CT_select_from accounts
              (\<lambda>a. acc_id a = from_account_id rq \<and> acc_user_id a = user_id u
                   \<and> acc_status a = ''active'') s0 of
         (fromRows, s1) \<Rightarrow>
       (case single fromRows of
          None \<Rightarrow> (error_response 404 ''Source account not found or inactive'', s1)
        | Some fromAccount \<Rightarrow>
            if acc_balance fromAccount < ct_amount rq
            then (error_response 400 ''Insufficient funds'', s1)
            else
            (case select_from e CT_select_to accounts
                    (\<lambda>a. acc_number a = ct_to_account_number rq
                         \<and> acc_status a = ''active'') s1 of
               (toRows, s2) \<Rightarrow>
             (case single toRows of
                None \<Rightarrow>
                  (error_response 404 ''Destination account not found or inactive'', s2)
              | Some toAccount \<Rightarrow>
                  if acc_id fromAccount = acc_id toAccount
                  then (error_response 400 ''Cannot transfer to the same account'', s2)
                  else ct_execute e rq fromAccount toAccount s2)))))"

definition create_transfer :: "env \<Rightarrow> db \<Rightarrow> ct_http \<Rightarrow> response \<times> st" where
  "create_transfer e d req =
     (let s0 = start d in
      if ct_method req = OPTIONS then (\<lparr>status = 200, body = No_body\<rparr>, s0)
      else
      case authenticate e (ct_authorization req) of
        Inl r \<Rightarrow> (r, s0)
      | Inr u \<Rightarrow>
      (case ct_json req of
         None \<Rightarrow> (\<lparr>status = 500, body = Json_error_body\<rparr>, s0)
       | Some rq \<Rightarrow> ct_guarded e u rq s0))"

section \<open>create-transaction: deposits, withdrawals and transfers\<close>

datatype txn_type = Deposit | Withdrawal

fun type_name :: "txn_type \<Rightarrow> string" where
  "type_name Deposit = ''deposit''"
| "type_name Withdrawal = ''withdrawal''"

fun toUpperCase :: "txn_type \<Rightarrow> string" where
  "toUpperCase Deposit = ''DEPOSIT''"
| "toUpperCase Withdrawal = ''WITHDRAWAL''"

record transaction_request =
  tq_account_number :: string
  tq_type :: txn_type
  tq_amount :: rat
  tq_description :: "string option"
  tq_reference_number :: "string option"

record account_transfer_request =
  from_account_number :: string
  to_account_number :: string
  tf_amount :: rat
  tf_notes :: "string option"

datatype request_body =
    Transaction_request transaction_request
  | Transfer_request account_transfer_request

record tx_http =
  tx_method :: http_method
  tx_authorization :: "string option"
  tx_json :: "request_body option"

text \<open>
  \<open>handleTransaction\<close> is an async function: where it throws, its promise is rejected,
  here the result \<open>Inl\<close> of the call that failed.
\<close>

definition handleTransaction :: "env \<Rightarrow> string \<Rightarrow> transaction_request \<Rightarrow> st \<Rightarrow> (site + response) \<times> st" where
  "handleTransaction e userId rq s0 =
     (if tq_amount rq \<le> 0 then (Inr (error_response 400 ''Amount must be > 0''), s0)
      else
      (case select_from e TX_select_account accounts
              (\<lambda>a. acc_number a = tq_account_number rq \<and> acc_user_id a = userId
                   \<and> acc_status a = ''active'') s0 of
         (rows, s1) \<Rightarrow>
       (case maybeSingle rows of
          None \<Rightarrow> (Inr (error_response 404 ''Account not found''), s1)
        | Some None \<Rightarrow> (Inr (error_response 404 ''Account not found''), s1)
        | Some (Some account) \<Rightarrow>
            if tq_type rq = Withdrawal \<and> acc_balance account < tq_amount rq
            then (Inr (error_response 400 ''Insufficient funds''), s1)
            else
            (let amountChange = (if tq_type rq = Deposit then tq_amount rq else - tq_amount rq);
                 newBalance = acc_balance account + amountChange
             in
             (case update_balance e TX_update_balance acc_number (acc_number account)
                     newBalance s1 of
                (updateError, s2) \<Rightarrow>
              if updateError then (Inl TX_update_balance, s2)
              else
              (case insert_transactions e TX_insert_transaction
                      [\<lparr>tx_id = gen_random_uuid e TX_insert_transaction 0,
                        tx_account_id = None,
                        tx_account_number = Some (tq_account_number rq),
                        tx_type = type_name (tq_type rq),
                        tx_amount = tq_amount rq,
                        tx_balance_after = newBalance,
                        tx_description =
                          or_else (tq_description rq) (toUpperCase (tq_type rq)) (\<lambda>x. x),
                        tx_reference_number = or_else (tq_reference_number rq) None Some,
                        tx_status = ''completed'',
                        tx_created_at = db_now e\<rparr>] s2 of
                 (inserted, s3) \<Rightarrow>
               (case inserted of
                  None \<Rightarrow> (Inl TX_insert_transaction, s3)
                | Some rs \<Rightarrow>
                    (Inr \<lparr>status = 201,
                          body = Transaction_body (case rs of [] \<Rightarrow> None | r # _ \<Rightarrow> Some r)\<rparr>,
                     s3))))))))"

text \<open>The two transaction records of \<open>handleTransfer\<close>: the amount is positive on
  both, the source account's and the destination account's.\<close>

definition tf_records :: "env \<Rightarrow> account_transfer_request \<Rightarrow> account \<Rightarrow> account \<Rightarrow> string option \<Rightarrow> transaction_row list" where
  "tf_records e rq fromAccount toAccount reference_number =
     [\<lparr>tx_id = gen_random_uuid e TR_insert_transactions 0,
       tx_account_id = None,
       tx_account_number = Some (acc_number fromAccount),
       tx_type = ''transfer'',
       tx_amount = tf_amount rq,
       tx_balance_after = acc_balance fromAccount - tf_amount rq,
       tx_description = ''Transfer to '' @ to_account_number rq,
       tx_reference_number = reference_number,
       tx_status = ''completed'',
       tx_created_at = db_now e\<rparr>,
      \<lparr>tx_id = gen_random_uuid e TR_insert_transactions 1,
       tx_account_id = None,
       tx_account_number = Some (acc_number toAccount),
       tx_type = ''transfer'',
       tx_amount = tf_amount rq,
       tx_balance_after = acc_balance toAccount + tf_amount rq,
       tx_description = ''Transfer from '' @ from_account_number rq,
       tx_reference_number = reference_number,
       tx_status = ''completed'',
       tx_created_at = db_now e\<rparr>]"

text \<open>\<open>handleTransfer\<close> looks at the error of none of its database calls: a read that
  failed is a null row, a write that failed is passed over.\<close>

definition tf_execute :: "env \<Rightarrow> account_transfer_request \<Rightarrow> account \<Rightarrow> account \<Rightarrow> st \<Rightarrow> response \<times> st" where
  "tf_execute e rq fromAccount toAccount s0 =
     (case rpc e TR_rpc_reference (generate_reference_number e) s0 of
        (reference_number, s1) \<Rightarrow>
      (let newFromBalance = acc_balance fromAccount - tf_amount rq;
           newToBalance = acc_balance toAccount + tf_amount rq
       in
       (case update_balance e TR_update_from acc_id (acc_id fromAccount) newFromBalance s1 of
          (err1, s2) \<Rightarrow>
        (case update_balance e TR_update_to acc_id (acc_id toAccount) newToBalance s2 of
           (err2, s3) \<Rightarrow>
         (case insert_transfer e TR_insert_transfer
                 (transfer_record e TR_insert_transfer fromAccount toAccount (tf_amount rq)
                    reference_number (tf_notes rq)) s3 of
            (transfer, s4) \<Rightarrow>
          (case insert_transactions e TR_insert_transactions
                  (tf_records e rq fromAccount toAccount reference_number) s4 of
             (inserted, s5) \<Rightarrow>
               (\<lparr>status = 201, body = Transfer_body transfer reference_number\<rparr>, s5)))))))"

definition handleTransfer :: "env \<Rightarrow> string \<Rightarrow> account_transfer_request \<Rightarrow> st \<Rightarrow> response \<times> st" where
  "handleTransfer e userId rq s0 =
     (if tf_amount rq \<le> 0 then (error_response 400 ''Amount must be > 0'', s0)
      else
      (case select_from e TR_select_from accounts
              (\<lambda>a. acc_number a = from_account_number rq \<and> acc_user_id a = userId
                   \<and> acc_status a = ''active'') s0 of
         (fromRows, s1) \<Rightarrow>
       (case maybeSingle fromRows of
          None \<Rightarrow> (error_response 404 ''Source account not found'', s1)
        | Some None \<Rightarrow> (error_response 404 ''Source account not found'', s1)
        | Some (Some fromAccount) \<Rightarrow>
            if acc_balance fromAccount < tf_amount rq
            then (error_response 400 ''Insufficient funds'', s1)
            else
            (case select_from e TR_select_to accounts
                    (\<lambda>a. acc_number a = to_account_number rq
                         \<and> acc_status a = ''active'') s1 of
               (toRows, s2) \<Rightarrow>
             (case maybeSingle toRows of
                None \<Rightarrow> (error_response 404 ''Destination not found'', s2)
              | Some None \<Rightarrow> (error_response 404 ''Destination not found'', s2)
              | Some (Some toAccount) \<Rightarrow> tf_execute e rq fromAccount toAccount s2)))))"

text \<open>
  The handler of create-transaction. It returns the promise of \<open>handleTransfer\<close> or
  \<open>handleTransaction\<close> without awaiting it, so an error thrown in there does not reach
  its catch block: the runtime answers a rejected handler with status 500.
\<close>

definition serve :: "env \<Rightarrow> db \<Rightarrow> tx_http \<Rightarrow> response \<times> st" where
  "serve e d req =
     (let s0 = start d in
      if tx_method req = OPTIONS then (\<lparr>status = 200, body = No_body\<rparr>, s0)
      else
      (case authenticate e (tx_authorization req) of
         Inl r \<Rightarrow> (r, s0)
       | Inr u \<Rightarrow>
         (case tx_json req of
            None \<Rightarrow> (\<lparr>status = 500, body = Json_error_body\<rparr>, s0)
          | Some (Transfer_request rq) \<Rightarrow> handleTransfer e (user_id u) rq s0
          | Some (Transaction_request rq) \<Rightarrow>
              (case handleTransaction e (user_id u) rq s0 of
                 (Inl k, s) \<Rightarrow> (\<lparr>status = 500, body = Internal_server_error\<rparr>, s)
               | (Inr r, s) \<Rightarrow> (r, s)))))"

section \<open>get-balance\<close>

record gb_http =
  gb_method :: http_method
  gb_authorization :: "string option"
  gb_account_number :: "string option"
  gb_user_id :: "string option"

text \<open>The filter of the account query: by account number when that parameter is
  given, else by the user id given.\<close>

definition gb_filter :: "string option \<Rightarrow> string option \<Rightarrow> account \<Rightarrow> bool" where
  "gb_filter accountNumber userIdParam a =
     or_else accountNumber (or_else userIdParam True (\<lambda>u. acc_user_id a = u))
       (\<lambda>n. acc_number a = n)"

definition get_balance :: "env \<Rightarrow> db \<Rightarrow> gb_http \<Rightarrow> response \<times> st" where
  "get_balance e d req =
     (let s0 = start d in
      if gb_method req = OPTIONS then (\<lparr>status = 200, body = No_body\<rparr>, s0)
      else if or_else (gb_account_number req) True (\<lambda>x. False)
            \<and> or_else (gb_user_id req) True (\<lambda>x. False)
      then (error_response 400
              ''Either account_number or user_id query parameter is required'', s0)
      else
      (case authenticate e (gb_authorization req) of
         Inl r \<Rightarrow> (r, s0)
       | Inr u \<Rightarrow>
         (case select_from e GB_select_account accounts
                 (gb_filter (gb_account_number req) (gb_user_id req)) s0 of
            (rows, s1) \<Rightarrow>
          (case maybeSingle rows of
             None \<Rightarrow> (thrown GB_select_account, s1)
           | Some None \<Rightarrow> (error_response 404 ''Account not found'', s1)
           | Some (Some account) \<Rightarrow>
               if acc_user_id account \<noteq> user_id u
               then (error_response 403 ''Unauthorized access to this account'', s1)
               else
               (case select_from e GB_select_profile profiles
                       (\<lambda>p. pr_id p = user_id u) s1 of
                  (profileRows, s2) \<Rightarrow>
                (case maybeSingle profileRows of
                   None \<Rightarrow> (thrown GB_select_profile, s2)
                 | Some profile \<Rightarrow>
                   (case select_from e GB_select_all_accounts accounts
                           (\<lambda>a. acc_user_id a = user_id u) s2 of
                      (accountRows, s3) \<Rightarrow>
                    (case order_desc acc_created_at accountRows of
                       None \<Rightarrow> (thrown GB_select_all_accounts, s3)
                     | Some allAccounts \<Rightarrow>
                         (\<lparr>status = 200,
                           body = Balance_body profile u (summary account)
                                    (map summary allAccounts)
                                    (sum_list (map acc_balance allAccounts))\<rparr>,
                          s3)))))))))"

section \<open>The list of the caller's accounts\<close>

record ga_http =
  ga_method :: http_method
  ga_authorization :: "string option"

definition get_accounts :: "env \<Rightarrow> db \<Rightarrow> ga_http \<Rightarrow> response \<times> st" where
  "get_accounts e d req =
     (let s0 = start d in
      if ga_method req = OPTIONS then (\<lparr>status = 200, body = No_body\<rparr>, s0)
      else
      (case authenticate e (ga_authorization req) of
         Inl r \<Rightarrow> (r, s0)
       | Inr u \<Rightarrow>
         (case select_from e GA_select_profile profiles (\<lambda>p. pr_id p = user_id u) s0 of
            (profileRows, s1) \<Rightarrow>
          (case maybeSingle profileRows of
             None \<Rightarrow> (thrown GA_select_profile, s1)
           | Some profile \<Rightarrow>
             (case select_from e GA_select_accounts accounts
                     (\<lambda>a. acc_user_id a = user_id u) s1 of
                (accountRows, s2) \<Rightarrow>
              (case order_desc acc_created_at accountRows of
                 None \<Rightarrow> (thrown GA_select_accounts, s2)
               | Some accts \<Rightarrow>
                   (\<lparr>status = 200,
                     body = Accounts_body profile (map summary accts)
                              (sum_list (map acc_balance accts)) (user_email u)\<rparr>,
                    s2)))))))"

section \<open>get-transactions\<close>

text \<open>
  The limit parameter is kept as the UTF-16 code units of the decoded query value, since
  \<open>parseInt\<close> looks at characters beyond ASCII; \<open>utf16\<close> gives the code units of an
  ASCII literal.
\<close>

definition utf16 :: "string \<Rightarrow> nat list" where
  "utf16 s = map of_char s"

text \<open>
  The white space \<open>parseInt\<close> skips: the white space and the line terminators of the
  language. These are tab, line feed, vertical tab, form feed, carriage return, space,
  no-break space (U+00A0), U+1680, U+2000 to U+200A, the line and paragraph separators
  (U+2028, U+2029), U+202F, U+205F, U+3000 and the byte order mark (U+FEFF).
\<close>

definition is_space :: "nat \<Rightarrow> bool" where
  "is_space c =
     (c \<in> {9, 10, 11, 12, 13, 32, 160, 5760, 8232, 8233, 8239, 8287, 12288, 65279}
      \<or> (8192 \<le> c \<and> c \<le> 8202))"

text \<open>The value of a digit of the base: 0 to 9, and a to f in either case for base 16.\<close>

definition digit_value :: "nat \<Rightarrow> nat \<Rightarrow> nat option" where
  "digit_value radix n =
     (if 48 \<le> n \<and> n \<le> 57 \<and> n - 48 < radix then Some (n - 48)
      else if radix = 16 \<and> 97 \<le> n \<and> n \<le> 102 then Some (n - 87)
      else if radix = 16 \<and> 65 \<le> n \<and> n \<le> 70 then Some (n - 55)
      else None)"

fun digits :: "nat \<Rightarrow> nat list \<Rightarrow> nat list" where
  "digits radix [] = []"
| "digits radix (c # cs) =
     (case digit_value radix c of None \<Rightarrow> [] | Some v \<Rightarrow> v # digits radix cs)"

text \<open>
  \<open>parseInt\<close> of one argument: leading white space is skipped, a sign is read, the
  prefix 0x or 0X selects base 16, and the longest run of digits of the base is the
  number; no digit at all is NaN, here \<open>None\<close>. The number is exact here; JavaScript
  rounds one beyond 2^53 to a double, which is still beyond the length of any list.
\<close>

definition parseInt :: "nat list \<Rightarrow> int option" where
  "parseInt s =
     (let t = dropWhile is_space s;
          negative = (take 1 t = utf16 ''-'');
          t1 = (if take 1 t = utf16 ''-'' \<or> take 1 t = utf16 ''+'' then drop 1 t else t);
          hex = (take 2 t1 = utf16 ''0x'' \<or> take 2 t1 = utf16 ''0X'');
          radix = (if hex then 16 else 10);
          ds = digits radix (if hex then drop 2 t1 else t1)
      in if ds = [] then None
         else Some ((if negative then - 1 else 1)
                    * int (foldl (\<lambda>acc v. acc * radix + v) 0 ds)))"

text \<open>\<open>xs.slice(0, end)\<close>: NaN counts as 0, a negative end counts from the end of the
  list.\<close>

definition slice0 :: "int option \<Rightarrow> 'a list \<Rightarrow> 'a list" where
  "slice0 end xs =
     (case end of
        None \<Rightarrow> []
      | Some n \<Rightarrow> if n < 0 then take (nat (int (length xs) + n)) xs else take (nat n) xs)"

record gt_http =
  gt_method :: http_method
  gt_authorization :: "string option"
  gt_account_number :: "string option"
  gt_limit :: "nat list option"

definition transaction_entry_of :: "transaction_row \<Rightarrow> entry" where
  "transaction_entry_of t =
     Transaction_entry
       \<lparr>te_id = tx_id t, te_transaction_type = tx_type t, te_amount = tx_amount t,
        te_account_number = tx_account_number t, te_balance_after = tx_balance_after t,
        te_description = tx_description t, te_reference_number = tx_reference_number t,
        te_status = tx_status t, te_created_at = tx_created_at t\<rparr>"

text \<open>The account number of the account a transfer names, by the embedded select.\<close>

definition account_number_of :: "db \<Rightarrow> string \<Rightarrow> string option" where
  "account_number_of d i = map_option acc_number (find (\<lambda>a. acc_id a = i) (accounts d))"

definition transfer_entry_of :: "db \<Rightarrow> transfer_row \<Rightarrow> entry" where
  "transfer_entry_of d tr =
     Transfer_entry
       \<lparr>fe_id = tr_id tr,
        fe_from_account_number = account_number_of d (tr_from_account_id tr),
        fe_to_account_number = account_number_of d (tr_to_account_id tr),
        fe_amount = tr_amount tr, fe_notes = tr_notes tr,
        fe_reference_number = tr_reference_number tr, fe_status = tr_status tr,
        fe_created_at = tr_completed_at tr\<rparr>"

text \<open>\<open>new Date(r.created_at).getTime()\<close>: a null date is the instant 0.\<close>

fun getTime :: "entry \<Rightarrow> nat" where
  "getTime (Transaction_entry t) = te_created_at t"
| "getTime (Transfer_entry f) = (case fe_created_at f of None \<Rightarrow> 0 | Some n \<Rightarrow> n)"

text \<open>The sort of the combined list, by the comparator that subtracts the instant of
  the first entry from that of the second: later entries first, and entries of the same
  instant in the order they had (the sort of an array is stable).\<close>

definition sort_recent_first :: "entry list \<Rightarrow> entry list" where
  "sort_recent_first xs = sort_key (\<lambda>r. - int (getTime r)) xs"

text \<open>The transfers of an account by completion date, the latest first; rows with no
  completion date come first in a descending order.\<close>

definition completed :: "transfer_row \<Rightarrow> nat" where
  "completed t = (case tr_completed_at t of None \<Rightarrow> 0 | Some n \<Rightarrow> n)"

definition order_transfers :: "transfer_row list option \<Rightarrow> transfer_row list option" where
  "order_transfers r =
     map_option (\<lambda>xs. filter (\<lambda>t. tr_completed_at t = None) xs
                      @ rev (sort_key completed (filter (\<lambda>t. tr_completed_at t \<noteq> None) xs)))
       r"

definition get_transactions :: "env \<Rightarrow> db \<Rightarrow> gt_http \<Rightarrow> response \<times> st" where
  "get_transactions e d req =
     (let s0 = start d in
      if gt_method req = OPTIONS then (\<lparr>status = 200, body = No_body\<rparr>, s0)
      else
      (case authenticate e (gt_authorization req) of
         Inl r \<Rightarrow> (r, s0)
       | Inr u \<Rightarrow>
         (let limit = or_else (gt_limit req) (utf16 ''50'') (\<lambda>x. x) in
          (case or_else (gt_account_number req) None Some of
             None \<Rightarrow> (error_response 400 ''Missing account_number parameter'', s0)
           | Some accountNumber \<Rightarrow>
             (case select_from e GT_select_account accounts
                     (\<lambda>a. acc_number a = accountNumber \<and> acc_user_id a = user_id u) s0 of
                (rows, s1) \<Rightarrow>
              (case maybeSingle rows of
                 None \<Rightarrow> (error_response 404 ''Account not found or unauthorized'', s1)
               | Some None \<Rightarrow> (error_response 404 ''Account not found or unauthorized'', s1)
               | Some (Some account) \<Rightarrow>
                 (case select_from e GT_select_transactions transactions
                         (\<lambda>t. tx_account_number t = Some accountNumber) s1 of
                    (transactionRows, s2) \<Rightarrow>
                  (case order_desc tx_created_at transactionRows of
                     None \<Rightarrow> (thrown GT_select_transactions, s2)
                   | Some txs \<Rightarrow>
                     (case select_from e GT_select_transfers transfers
                             (\<lambda>t. tr_from_account_id t = acc_id account
                                  \<or> tr_to_account_id t = acc_id account) s2 of
                        (transferRows, s3) \<Rightarrow>
                      (case order_transfers transferRows of
                         None \<Rightarrow> (thrown GT_select_transfers, s3)
                       | Some trs \<Rightarrow>
                           (\<lparr>status = 200,
                             body = Transactions_body
                               (slice0 (parseInt limit)
                                  (sort_recent_first
                                     (map transaction_entry_of txs
                                      @ map (transfer_entry_of d) trs)))\<rparr>,
                            s3)))))))))))"

section \<open>create-account\<close>

record create_account_request =
  account_type :: string
  initial_deposit :: "rat option"

record ca_http =
  ca_method :: http_method
  ca_authorization :: "string option"
  ca_json :: "create_account_request option"

definition create_account :: "env \<Rightarrow> db \<Rightarrow> ca_http \<Rightarrow> response \<times> st" where
  "create_account e d req =
     (let s0 = start d in
      if ca_method req = OPTIONS then (\<lparr>status = 200, body = No_body\<rparr>, s0)
      else
      (case authenticate e (ca_authorization req) of
         Inl r \<Rightarrow> (r, s0)
       | Inr u \<Rightarrow>
         (case ca_json req of
            None \<Rightarrow> (\<lparr>status = 500, body = Json_error_body\<rparr>, s0)
          | Some rq \<Rightarrow>
            (let deposit = (case initial_deposit rq of None \<Rightarrow> 0 | Some v \<Rightarrow> v) in
             if account_type rq \<notin> set [''Current'', ''Savings'', ''Credit'']
             then (error_response 400 ''Invalid account type'', s0)
             else
             (case rpc e CA_rpc_account_number (generate_account_number e) s0 of
                (accountNumber, s1) \<Rightarrow>
              (case accountNumber of
                 None \<Rightarrow> (thrown CA_rpc_account_number, s1)
               | Some number \<Rightarrow>
                 (case insert_account e CA_insert_account
                         \<lparr>acc_id = gen_random_uuid e CA_insert_account 0,
                          acc_user_id = user_id u,
                          acc_number = number,
                          acc_type = account_type rq,
                          acc_balance = deposit,
                          acc_currency = ''BHD'',
                          acc_status = ''active'',
                          acc_created_at = db_now e\<rparr> s1 of
                    (inserted, s2) \<Rightarrow>
                  (case inserted of
                     None \<Rightarrow> (thrown CA_insert_account, s2)
                   | Some account \<Rightarrow>
                       if deposit > 0 then
                         (case rpc e CA_rpc_reference (generate_reference_number e) s2 of
                            (refNumber, s3) \<Rightarrow>
                          (case insert_transactions e CA_insert_transaction
                                  [\<lparr>tx_id = gen_random_uuid e CA_insert_transaction 0,
                                    tx_account_id = Some (acc_id account),
                                    tx_account_number = None,
                                    tx_type = ''deposit'',
                                    tx_amount = deposit,
                                    tx_balance_after = deposit,
                                    tx_description = ''Initial deposit'',
                                    tx_reference_number = refNumber,
                                    tx_status = ''completed'',
                                    tx_created_at = db_now e\<rparr>] s3 of
                             (logged, s4) \<Rightarrow>
                               (\<lparr>status = 201, body = Account_body account\<rparr>, s4)))
                       else (\<lparr>status = 201, body = Account_body account\<rparr>, s2)))))))))"

section \<open>signup\<close>

record signup_request =
  su_email :: "string option"
  su_password :: "string option"
  su_full_name :: "string option"
  su_phone :: "string option"
  su_date_of_birth :: "string option"
  su_address :: "string option"

record su_http =
  su_method :: http_method
  su_authorization :: "string option"
  su_json :: "signup_request option"

text \<open>signup reads no Authorization header: it registers the caller with the identity
  provider and stores the profile with the service role.\<close>

definition signup :: "env \<Rightarrow> db \<Rightarrow> su_http \<Rightarrow> response \<times> st" where
  "signup e d req =
     (let s0 = start d in
      if su_method req = OPTIONS then (\<lparr>status = 200, body = No_body\<rparr>, s0)
      else
      (case su_json req of
         None \<Rightarrow> (\<lparr>status = 500, body = Json_error_body\<rparr>, s0)
       | Some rq \<Rightarrow>
         (let email = or_else (su_email rq) [] (\<lambda>x. x);
              password = or_else (su_password rq) [] (\<lambda>x. x);
              full_name = or_else (su_full_name rq) [] (\<lambda>x. x)
          in
          if email = [] \<or> password = [] \<or> full_name = []
          then (error_response 400 ''Email, password, and full name are required'', s0)
          else
          (case signUp e email password of
             SignUp_error msg \<Rightarrow> (error_response 400 msg, s0)
           | SignUp_no_user \<Rightarrow> (error_response 500 ''Failed to create user'', s0)
           | SignUp_user authUser \<Rightarrow>
             (case insert_profile e SU_insert_profile
                     \<lparr>pr_id = user_id authUser,
                      pr_full_name = full_name,
                      pr_phone = or_else (su_phone rq) None Some,
                      pr_date_of_birth = or_else (su_date_of_birth rq) None Some,
                      pr_address = or_else (su_address rq) None Some\<rparr> s0 of
                (profile, s1) \<Rightarrow>
              (case profile of
                 None \<Rightarrow> (thrown SU_insert_profile, s1)
               | Some p \<Rightarrow> (\<lparr>status = 201, body = Signup_body authUser p\<rparr>, s1)))))))"

section \<open>A concrete database and environment\<close>

definition alice :: user where
  "alice = \<lparr>user_id = ''alice'', user_email = ''alice@example.org''\<rparr>"

definition env_ok :: env where
  "env_ok = \<lparr>getUser = (\<lambda>t. if t = ''tok-alice'' then Some alice else None),
            signUp = (\<lambda>em pw. SignUp_user \<lparr>user_id = ''carol'', user_email = em\<rparr>),
            fails = (\<lambda>k. False),
            generate_reference_number = ''REF20251106000042'',
            generate_account_number = ''0000000007'',
            gen_random_uuid = (\<lambda>k n. ''uuid''),
            db_now = 1000,
            clock_now = 1000\<rparr>"

definition acct_a :: account where
  "acct_a = \<lparr>acc_id = ''a1'', acc_user_id = ''alice'', acc_number = ''1000000001'',
            acc_type = ''Current'', acc_balance = 100, acc_currency = ''BHD'',
            acc_status = ''active'', acc_created_at = 10\<rparr>"

definition acct_b :: account where
  "acct_b = \<lparr>acc_id = ''b1'', acc_user_id = ''bob'', acc_number = ''1000000002'',
            acc_type = ''Savings'', acc_balance = 50, acc_currency = ''BHD'',
            acc_status = ''active'', acc_created_at = 20\<rparr>"

definition db0 :: db where
  "db0 = \<lparr>accounts = [acct_a, acct_b], transactions = [], transfers = [], profiles = []\<rparr>"

definition acct_c :: account where
  "acct_c = \<lparr>acc_id = ''c1'', acc_user_id = ''alice'', acc_number = ''1000000003'',
            acc_type = ''Savings'', acc_balance = 5, acc_currency = ''BHD'',
            acc_status = ''suspended'', acc_created_at = 30\<rparr>"

definition acct_d :: account where
  "acct_d = \<lparr>acc_id = ''d1'', acc_user_id = ''alice'', acc_number = ''1000000004'',
            acc_type = ''Credit'', acc_balance = - 5, acc_currency = ''BHD'',
            acc_status = ''active'', acc_created_at = 40\<rparr>"

definition db1 :: db where
  "db1 = \<lparr>accounts = [acct_a, acct_b, acct_c, acct_d], transactions = [], transfers = [],
         profiles = []\<rparr>"

text \<open>The environment in which the database call of one place fails.\<close>

definition env_failing :: "site \<Rightarrow> env" where
  "env_failing k0 = env_ok\<lparr>fails := (\<lambda>k. k = k0)\<rparr>"

text \<open>Requests of Alice to create-transaction and to create-transfer.\<close>

definition post_transaction :: "string \<Rightarrow> txn_type \<Rightarrow> rat \<Rightarrow> tx_http" where
  "post_transaction n t v =
     \<lparr>tx_method = POST, tx_authorization = Some ''Bearer tok-alice'',
      tx_json = Some (Transaction_request
        \<lparr>tq_account_number = n, tq_type = t, tq_amount = v,
         tq_description = None, tq_reference_number = None\<rparr>)\<rparr>"

definition post_transfer :: "string \<Rightarrow> string \<Rightarrow> rat \<Rightarrow> tx_http" where
  "post_transfer n m v =
     \<lparr>tx_method = POST, tx_authorization = Some ''Bearer tok-alice'',
      tx_json = Some (Transfer_request
        \<lparr>from_account_number = n, to_account_number = m, tf_amount = v,
         tf_notes = None\<rparr>)\<rparr>"

definition post_create_transfer :: "string \<Rightarrow> string \<Rightarrow> rat \<Rightarrow> ct_http" where
  "post_create_transfer i m v =
     \<lparr>ct_method = POST, ct_authorization = Some ''Bearer tok-alice'',
      ct_json = Some \<lparr>from_account_id = i, ct_to_account_number = m, ct_amount = v,
                      ct_notes = None\<rparr>\<rparr>"

text \<open>A database with a profile, transaction records and a transfer, and requests
  to the reading handlers.\<close>

definition alice_profile :: profile_row where
  "alice_profile = \<lparr>pr_id = ''alice'', pr_full_name = ''Alice'', pr_phone = None,
                      pr_date_of_birth = None, pr_address = None\<rparr>"

definition tx1 :: transaction_row where
  "tx1 = \<lparr>tx_id = ''t1'', tx_account_id = None, tx_account_number = Some ''1000000001'',
          tx_type = ''deposit'', tx_amount = 70, tx_balance_after = 70,
          tx_description = ''DEPOSIT'', tx_reference_number = None,
          tx_status = ''completed'', tx_created_at = 100\<rparr>"

definition tx2 :: transaction_row where
  "tx2 = \<lparr>tx_id = ''t2'', tx_account_id = None, tx_account_number = Some ''1000000001'',
          tx_type = ''deposit'', tx_amount = 40, tx_balance_after = 110,
          tx_description = ''DEPOSIT'', tx_reference_number = None,
          tx_status = ''completed'', tx_created_at = 300\<rparr>"

definition tr1 :: transfer_row where
  "tr1 = \<lparr>tr_id = ''f1'', tr_from_account_id = ''a1'', tr_to_account_id = ''b1'',
          tr_amount = 10, tr_reference_number = Some ''REF20251106000001'',
          tr_notes = None, tr_status = ''completed'', tr_completed_at = Some 200\<rparr>"

definition db2 :: db where
  "db2 = \<lparr>accounts = [acct_a, acct_b, acct_c], transactions = [tx1, tx2],
         transfers = [tr1], profiles = [alice_profile]\<rparr>"

definition get_balance_of :: "string \<Rightarrow> gb_http" where
  "get_balance_of n = \<lparr>gb_method = GET, gb_authorization = Some ''Bearer tok-alice'',
                       gb_account_number = Some n, gb_user_id = None\<rparr>"

definition get_transactions_of :: "string \<Rightarrow> nat list option \<Rightarrow> gt_http" where
  "get_transactions_of n l = \<lparr>gt_method = GET, gt_authorization = Some ''Bearer tok-alice'',
                               gt_account_number = Some n, gt_limit = l\<rparr>"

definition signup_carol :: su_http where
  "signup_carol = \<lparr>su_method = POST, su_authorization = None,
      su_json = Some \<lparr>su_email = Some ''carol@example.org'', su_password = Some ''secret'',
                      su_full_name = Some ''Carol'', su_phone = None,
                      su_date_of_birth = None, su_address = None\<rparr>\<rparr>"

section \<open>Properties\<close>

subsection \<open>Amounts that are not positive\<close>

text \<open>
  C8. A deposit, withdrawal or transfer request whose amount is zero or negative is
  answered with status 400 and the message about the amount, before any database call:
  the trace of calls is empty and the tables are the ones the request started with. This
  holds of \<open>handleTransaction\<close> and \<open>handleTransfer\<close> as functions, and of the two
  HTTP handlers for every request that got past authentication with such a body.
\<close>

theorem nonpositive_amount_rejected:
  "(tq_amount tq \<le> 0 \<longrightarrow>
      handleTransaction e uid tq s = (Inr (error_response 400 ''Amount must be > 0''), s))
   \<and> (tf_amount tf \<le> 0 \<longrightarrow>
      handleTransfer e uid tf s = (error_response 400 ''Amount must be > 0'', s))
   \<and> (ct_method rq \<noteq> OPTIONS \<and> authenticate e (ct_authorization rq) = Inr u
        \<and> ct_json rq = Some b \<and> ct_amount b \<le> 0 \<longrightarrow>
      create_transfer e d rq =
        (error_response 400 ''Amount must be greater than 0'', start d))
   \<and> (tx_method rq' \<noteq> OPTIONS \<and> authenticate e (tx_authorization rq') = Inr u
        \<and> tx_json rq' = Some (Transaction_request tq) \<and> tq_amount tq \<le> 0 \<longrightarrow>
      serve e d rq' = (error_response 400 ''Amount must be > 0'', start d))
   \<and> (tx_method rq'' \<noteq> OPTIONS \<and> authenticate e (tx_authorization rq'') = Inr u
        \<and> tx_json rq'' = Some (Transfer_request tf) \<and> tf_amount tf \<le> 0 \<longrightarrow>
      serve e d rq'' = (error_response 400 ''Amount must be > 0'', start d))"
  by (simp add: handleTransaction_def handleTransfer_def create_transfer_def ct_guarded_def
      serve_def start_def)

theorem nonpositive_amount_rejected_witness:
  "handleTransaction env_ok ''alice''
      \<lparr>tq_account_number = ''1000000001'', tq_type = Withdrawal, tq_amount = - 5,
       tq_description = None, tq_reference_number = None\<rparr> (start db0)
     = (Inr (error_response 400 ''Amount must be > 0''), start db0)
   \<and> handleTransfer env_ok ''alice''
      \<lparr>from_account_number = ''1000000001'', to_account_number = ''1000000002'',
       tf_amount = 0, tf_notes = None\<rparr> (start db0)
     = (error_response 400 ''Amount must be > 0'', start db0)
   \<and> create_transfer env_ok db0 (post_create_transfer ''a1'' ''1000000002'' (- 1))
     = (error_response 400 ''Amount must be greater than 0'', start db0)
   \<and> serve env_ok db0 (post_transaction ''1000000001'' Withdrawal (- 5))
     = (error_response 400 ''Amount must be > 0'', start db0)
   \<and> serve env_ok db0 (post_transfer ''1000000001'' ''1000000002'' 0)
     = (error_response 400 ''Amount must be > 0'', start db0)"
  using nonpositive_amount_rejected
    [where tq = "\<lparr>tq_account_number = ''1000000001'', tq_type = Withdrawal, tq_amount = - 5,
                   tq_description = None, tq_reference_number = None\<rparr>"
       and tf = "\<lparr>from_account_number = ''1000000001'', to_account_number = ''1000000002'',
                   tf_amount = 0, tf_notes = None\<rparr>"
       and e = env_ok and uid = "''alice''" and s = "start db0" and d = db0 and u = alice
       and rq = "post_create_transfer ''a1'' ''1000000002'' (- 1)"
       and b = "\<lparr>from_account_id = ''a1'', ct_to_account_number = ''1000000002'',
                   ct_amount = - 1, ct_notes = None\<rparr>"
       and rq' = "post_transaction ''1000000001'' Withdrawal (- 5)"
       and rq'' = "post_transfer ''1000000001'' ''1000000002'' 0"]
  by (simp add: authenticate_def env_ok_def post_create_transfer_def post_transaction_def
      post_transfer_def)

subsection \<open>Insufficient funds\<close>

lemmas handler_defs =
  serve_def handleTransaction_def handleTransfer_def tf_execute_def
  create_transfer_def ct_guarded_def ct_execute_def
  select_from_def start_def log_call_def single_def maybeSingle_def
  rpc_def rpc_data_def update_balance_def set_balance_def insert_transfer_def
  insert_transactions_def authenticate_def transfer_record_def ct_records_def tf_records_def

lemmas fixture_defs =
  env_ok_def alice_def db0_def db1_def acct_a_def acct_b_def acct_c_def acct_d_def
  post_transaction_def post_transfer_def post_create_transfer_def

lemmas eval_defs = handler_defs fixture_defs env_failing_def error_response_def thrown_def


text \<open>
  C3, as the code has it. A withdrawal or transfer request that got past authentication,
  asks for a positive amount and names a source account that the guarded read finds
  (one active account of the caller), with a balance below the amount, is answered with
  status 400 and the message Insufficient funds. The database has been read once and
  written never: the tables are unchanged.
\<close>

theorem insufficient_funds_rejected:
  "(tx_method req \<noteq> OPTIONS \<and> authenticate e (tx_authorization req) = Inr u
      \<and> tx_json req = Some (Transaction_request tq) \<and> tq_type tq = Withdrawal
      \<and> 0 < tq_amount tq \<and> \<not> fails e TX_select_account
      \<and> filter (\<lambda>a. acc_number a = tq_account_number tq \<and> acc_user_id a = user_id u
                      \<and> acc_status a = ''active'') (accounts d) = [src]
      \<and> acc_balance src < tq_amount tq \<longrightarrow>
    serve e d req = (error_response 400 ''Insufficient funds'',
                     \<lparr>st_db = d, st_trace = [Read TX_select_account]\<rparr>))
   \<and> (tx_method req' \<noteq> OPTIONS \<and> authenticate e (tx_authorization req') = Inr u
      \<and> tx_json req' = Some (Transfer_request tf)
      \<and> 0 < tf_amount tf \<and> \<not> fails e TR_select_from
      \<and> filter (\<lambda>a. acc_number a = from_account_number tf \<and> acc_user_id a = user_id u
                      \<and> acc_status a = ''active'') (accounts d) = [src]
      \<and> acc_balance src < tf_amount tf \<longrightarrow>
    serve e d req' = (error_response 400 ''Insufficient funds'',
                     \<lparr>st_db = d, st_trace = [Read TR_select_from]\<rparr>))
   \<and> (ct_method rq \<noteq> OPTIONS \<and> authenticate e (ct_authorization rq) = Inr u
      \<and> ct_json rq = Some b
      \<and> 0 < ct_amount b \<and> \<not> fails e CT_select_from
      \<and> filter (\<lambda>a. acc_id a = from_account_id b \<and> acc_user_id a = user_id u
                      \<and> acc_status a = ''active'') (accounts d) = [src]
      \<and> acc_balance src < ct_amount b \<longrightarrow>
    create_transfer e d rq = (error_response 400 ''Insufficient funds'',
                     \<lparr>st_db = d, st_trace = [Read CT_select_from]\<rparr>))"
  by (simp add: serve_def handleTransaction_def handleTransfer_def create_transfer_def
      ct_guarded_def select_from_def start_def log_call_def single_def maybeSingle_def)

theorem insufficient_funds_rejected_witness:
  "serve env_ok db1 (post_transaction ''1000000001'' Withdrawal 500)
     = (error_response 400 ''Insufficient funds'',
        \<lparr>st_db = db1, st_trace = [Read TX_select_account]\<rparr>)
   \<and> serve env_ok db1 (post_transfer ''1000000001'' ''1000000002'' 500)
     = (error_response 400 ''Insufficient funds'',
        \<lparr>st_db = db1, st_trace = [Read TR_select_from]\<rparr>)
   \<and> create_transfer env_ok db1 (post_create_transfer ''a1'' ''1000000002'' 500)
     = (error_response 400 ''Insufficient funds'',
        \<lparr>st_db = db1, st_trace = [Read CT_select_from]\<rparr>)"
  using insufficient_funds_rejected
    [where e = env_ok and d = db1 and u = alice and src = acct_a
       and req = "post_transaction ''1000000001'' Withdrawal 500"
       and tq = "\<lparr>tq_account_number = ''1000000001'', tq_type = Withdrawal,
                   tq_amount = 500, tq_description = None, tq_reference_number = None\<rparr>"
       and req' = "post_transfer ''1000000001'' ''1000000002'' 500"
       and tf = "\<lparr>from_account_number = ''1000000001'',
                   to_account_number = ''1000000002'', tf_amount = 500, tf_notes = None\<rparr>"
       and rq = "post_create_transfer ''a1'' ''1000000002'' 500"
       and b = "\<lparr>from_account_id = ''a1'', ct_to_account_number = ''1000000002'',
                  ct_amount = 500, ct_notes = None\<rparr>"]
  by (simp add: authenticate_def fixture_defs)

text \<open>
  The claim as it was stated fails where an earlier guard answers first: a withdrawal of
  10 from a suspended account of the caller that holds 5 is answered with status 404,
  and a withdrawal of -1 from an account that holds -5 with the message about the
  amount.
\<close>

theorem insufficient_funds_counterexample:
  "acc_balance acct_c < 10
   \<and> fst (serve env_ok db1 (post_transaction ''1000000003'' Withdrawal 10))
       = error_response 404 ''Account not found''
   \<and> fst (serve env_ok db1 (post_transaction ''1000000003'' Withdrawal 10))
       \<noteq> error_response 400 ''Insufficient funds''
   \<and> acc_balance acct_d < - 1
   \<and> fst (serve env_ok db1 (post_transaction ''1000000004'' Withdrawal (- 1)))
       = error_response 400 ''Amount must be > 0''
   \<and> fst (serve env_ok db1 (post_transaction ''1000000004'' Withdrawal (- 1)))
       \<noteq> error_response 400 ''Insufficient funds''"
  by (simp add: handler_defs fixture_defs error_response_def)

subsection \<open>The paths through the transfer handlers\<close>

lemma single_eq_Some [simp]: "single r = Some a \<longleftrightarrow> r = Some [a]"
  by (auto simp: single_def split: option.splits list.splits)

lemma single_None [simp]: "single None = None"
  by (simp add: single_def)

lemma maybeSingle_Some_Some [simp]: "maybeSingle r = Some (Some a) \<longleftrightarrow> r = Some [a]"
  by (auto simp: maybeSingle_def split: option.splits list.splits)

lemma maybeSingle_None [simp]: "maybeSingle None = None"
  by (simp add: maybeSingle_def)

lemma filter_singleton_mem: "filter p xs = [a] \<Longrightarrow> a \<in> set xs \<and> p a"
proof -
  assume h: "filter p xs = [a]"
  have "a \<in> set (filter p xs)" unfolding h by simp
  then show ?thesis by simp
qed

lemma ct_guarded_cases:
  assumes "ct_guarded e u rq s0 = (r, s)"
  obtains
    (rejected) "st_db s = st_db s0"
      "st_trace s = st_trace s0 \<or> st_trace s = st_trace s0 @ [Read CT_select_from]
       \<or> st_trace s = st_trace s0 @ [Read CT_select_from, Read CT_select_to]"
      "status r = 400 \<or> status r = 404"
  | (executed) fa ta where "0 < ct_amount rq" "\<not> fails e CT_select_from"
      "filter (\<lambda>a. acc_id a = from_account_id rq \<and> acc_user_id a = user_id u
                  \<and> acc_status a = ''active'') (accounts (st_db s0)) = [fa]"
      "ct_amount rq \<le> acc_balance fa" "\<not> fails e CT_select_to"
      "filter (\<lambda>a. acc_number a = ct_to_account_number rq \<and> acc_status a = ''active'')
         (accounts (st_db s0)) = [ta]"
      "acc_id fa \<noteq> acc_id ta"
      "ct_execute e rq fa ta
         (s0\<lparr>st_trace := st_trace s0 @ [Read CT_select_from, Read CT_select_to]\<rparr>) = (r, s)"
  using assms
  by (auto simp: ct_guarded_def select_from_def log_call_def error_response_def
      split: if_splits option.splits)

lemma create_transfer_cases:
  assumes "create_transfer e d req = (r, s)"
  obtains
    (preflight) "ct_method req = OPTIONS" "status r = 200" "body r = No_body" "s = start d"
  | (unauthenticated) "ct_method req \<noteq> OPTIONS" "authenticate e (ct_authorization req) = Inl r"
      "s = start d"
  | (malformed) "ct_method req \<noteq> OPTIONS" "ct_json req = None" "status r = 500" "s = start d"
  | (guarded) u rq where "ct_method req \<noteq> OPTIONS"
      "authenticate e (ct_authorization req) = Inr u" "ct_json req = Some rq"
      "ct_guarded e u rq (start d) = (r, s)"
  using assms
  by (auto simp: create_transfer_def Let_def split: if_splits sum.splits option.splits)

lemma authenticate_Inl: "authenticate e h = Inl r \<Longrightarrow> status r = 401"
  by (auto simp: authenticate_def error_response_def split: option.splits if_splits)


lemma ct_execute_cases:
  assumes "ct_execute e rq fa ta s0 = (r, s)"
  obtains
    (update_from_failed) "fails e CT_update_from" "r = thrown CT_update_from"
      "st_db s = st_db s0"
      "map call_site (st_trace s)
         = map call_site (st_trace s0) @ [CT_rpc_reference, CT_update_from]"
  | (update_to_failed) "\<not> fails e CT_update_from" "fails e CT_update_to"
      "r = thrown CT_update_to"
      "st_db s = (if fails e CT_rollback_from
                  then set_balance acc_id (acc_id fa) (acc_balance fa - ct_amount rq) (st_db s0)
                  else set_balance acc_id (acc_id fa) (acc_balance fa)
                         (set_balance acc_id (acc_id fa) (acc_balance fa - ct_amount rq)
                            (st_db s0)))"
      "st_trace s = st_trace s0 @
         [Rpc CT_rpc_reference,
          Write CT_update_from (Set_balance (acc_id fa) (acc_balance fa - ct_amount rq)),
          Write CT_update_to (Set_balance (acc_id ta) (acc_balance ta + ct_amount rq)),
          Write CT_rollback_from (Set_balance (acc_id fa) (acc_balance fa))]"
  | (insert_transfer_failed) "\<not> fails e CT_update_from" "\<not> fails e CT_update_to"
      "fails e CT_insert_transfer" "r = thrown CT_insert_transfer"
      "st_db s = set_balance acc_id (acc_id ta) (acc_balance ta + ct_amount rq)
                   (set_balance acc_id (acc_id fa) (acc_balance fa - ct_amount rq) (st_db s0))"
      "map call_site (st_trace s) = map call_site (st_trace s0) @
         [CT_rpc_reference, CT_update_from, CT_update_to, CT_insert_transfer]"
  | (completed) "\<not> fails e CT_update_from" "\<not> fails e CT_update_to"
      "\<not> fails e CT_insert_transfer" "status r = 200"
      "body r = Transfer_body
         (Some (transfer_record e CT_insert_transfer fa ta (ct_amount rq)
                  (rpc_data e CT_rpc_reference (generate_reference_number e)) (ct_notes rq)))
         (rpc_data e CT_rpc_reference (generate_reference_number e))"
      "accounts (st_db s)
         = accounts (set_balance acc_id (acc_id ta) (acc_balance ta + ct_amount rq)
                   (set_balance acc_id (acc_id fa) (acc_balance fa - ct_amount rq) (st_db s0)))"
      "transfers (st_db s) = transfers (st_db s0) @
         [transfer_record e CT_insert_transfer fa ta (ct_amount rq)
            (rpc_data e CT_rpc_reference (generate_reference_number e)) (ct_notes rq)]"
      "transactions (st_db s)
         = (if fails e CT_insert_transactions then transactions (st_db s0)
            else transactions (st_db s0) @
              ct_records e rq fa ta (rpc_data e CT_rpc_reference (generate_reference_number e)))"
      "map call_site (st_trace s) = map call_site (st_trace s0) @
         [CT_rpc_reference, CT_update_from, CT_update_to, CT_insert_transfer,
          CT_insert_transactions]"
  using assms
  by (auto simp: ct_execute_def rpc_def update_balance_def insert_transfer_def
      insert_transactions_def log_call_def Let_def set_balance_def
      split: if_splits prod.splits)

lemma accounts_set_balance:
  "accounts (set_balance col key v d)
     = map (\<lambda>a. if col a = key then a\<lparr>acc_balance := v\<rparr> else a) (accounts d)"
  by (simp add: set_balance_def)

lemma distinct_same_id:
  assumes "distinct (map acc_id xs)" "a \<in> set xs" "b \<in> set xs" "acc_id a = acc_id b"
  shows "a = b"
  using assms by (meson distinct_map inj_onD)

text \<open>undoing an update of the one row with that id\<close>
lemma set_balance_undo:
  assumes "distinct (map acc_id (accounts d))" "a \<in> set (accounts d)"
  shows "set_balance acc_id (acc_id a) (acc_balance a) (set_balance acc_id (acc_id a) v d) = d"
proof -
  have "map (\<lambda>x. if acc_id x = acc_id a then x\<lparr>acc_balance := acc_balance a\<rparr> else x)
         (map (\<lambda>x. if acc_id x = acc_id a then x\<lparr>acc_balance := v\<rparr> else x) (accounts d))
        = map (\<lambda>x. x) (accounts d)"
    unfolding map_map
  proof (rule map_cong[OF refl])
    fix x assume "x \<in> set (accounts d)"
    then show "((\<lambda>x. if acc_id x = acc_id a then x\<lparr>acc_balance := acc_balance a\<rparr> else x) \<circ>
          (\<lambda>x. if acc_id x = acc_id a then x\<lparr>acc_balance := v\<rparr> else x)) x = x"
      using distinct_same_id[OF assms(1) _ assms(2), of x] by auto
  qed
  then show ?thesis by (simp add: set_balance_def)
qed

lemma tf_execute_result:
  assumes "tf_execute e rq fa ta s0 = (r, s)"
  shows "status r = 201"
    and "body r = Transfer_body
           (if fails e TR_insert_transfer then None
            else Some (transfer_record e TR_insert_transfer fa ta (tf_amount rq)
                    (rpc_data e TR_rpc_reference (generate_reference_number e)) (tf_notes rq)))
           (rpc_data e TR_rpc_reference (generate_reference_number e))"
    and "transactions (st_db s)
           = (if fails e TR_insert_transactions then transactions (st_db s0)
              else transactions (st_db s0) @
                tf_records e rq fa ta
                  (rpc_data e TR_rpc_reference (generate_reference_number e)))"
    and "st_trace s = st_trace s0 @
           [Rpc TR_rpc_reference,
            Write TR_update_from (Set_balance (acc_id fa) (acc_balance fa - tf_amount rq)),
            Write TR_update_to (Set_balance (acc_id ta) (acc_balance ta + tf_amount rq)),
            Write TR_insert_transfer
              (Add_transfer (transfer_record e TR_insert_transfer fa ta (tf_amount rq)
                 (rpc_data e TR_rpc_reference (generate_reference_number e)) (tf_notes rq))),
            Write TR_insert_transactions
              (Add_transactions (tf_records e rq fa ta
                 (rpc_data e TR_rpc_reference (generate_reference_number e))))]"
  using assms
  by (auto simp: tf_execute_def rpc_def update_balance_def insert_transfer_def
      insert_transactions_def log_call_def Let_def set_balance_def
      split: if_splits prod.splits)

lemma handleTransfer_cases:
  assumes "handleTransfer e uid rq s0 = (r, s)"
  obtains
    (rejected) "st_db s = st_db s0"
      "st_trace s = st_trace s0 \<or> st_trace s = st_trace s0 @ [Read TR_select_from]
       \<or> st_trace s = st_trace s0 @ [Read TR_select_from, Read TR_select_to]"
      "status r = 400 \<or> status r = 404"
  | (executed) fa ta where "0 < tf_amount rq" "\<not> fails e TR_select_from"
      "filter (\<lambda>a. acc_number a = from_account_number rq \<and> acc_user_id a = uid
                  \<and> acc_status a = ''active'') (accounts (st_db s0)) = [fa]"
      "tf_amount rq \<le> acc_balance fa" "\<not> fails e TR_select_to"
      "filter (\<lambda>a. acc_number a = to_account_number rq \<and> acc_status a = ''active'')
         (accounts (st_db s0)) = [ta]"
      "tf_execute e rq fa ta
         (s0\<lparr>st_trace := st_trace s0 @ [Read TR_select_from, Read TR_select_to]\<rparr>) = (r, s)"
  using assms
  by (auto simp: handleTransfer_def select_from_def log_call_def error_response_def
      split: if_splits option.splits)

lemma serve_transfer_cases:
  assumes "serve e d req = (r, s)" and "tx_json req = Some (Transfer_request rq)"
  obtains
    (preflight) "tx_method req = OPTIONS" "status r = 200" "body r = No_body" "s = start d"
  | (unauthenticated) "tx_method req \<noteq> OPTIONS"
      "authenticate e (tx_authorization req) = Inl r" "s = start d"
  | (transfer) u where "tx_method req \<noteq> OPTIONS"
      "authenticate e (tx_authorization req) = Inr u"
      "handleTransfer e (user_id u) rq (start d) = (r, s)"
  using assms
  by (auto simp: serve_def Let_def split: if_splits sum.splits option.splits)

lemma create_transfer_trace:
  assumes run: "create_transfer e d req = (r, s)"
  shows "map call_site (st_trace s) \<in> set
        [[], [CT_select_from], [CT_select_from, CT_select_to],
         [CT_select_from, CT_select_to, CT_rpc_reference, CT_update_from],
         [CT_select_from, CT_select_to, CT_rpc_reference, CT_update_from, CT_update_to,
          CT_rollback_from],
         [CT_select_from, CT_select_to, CT_rpc_reference, CT_update_from, CT_update_to,
          CT_insert_transfer],
         [CT_select_from, CT_select_to, CT_rpc_reference, CT_update_from, CT_update_to,
          CT_insert_transfer, CT_insert_transactions]]"
  using run
proof (cases rule: create_transfer_cases)
  case (guarded u rq)
  from guarded(4) show ?thesis
  proof (cases rule: ct_guarded_cases)
    case rejected
    then show ?thesis by (auto simp: start_def)
  next
    case (executed fa ta)
    from executed(8) show ?thesis
      by (cases rule: ct_execute_cases) (simp_all add: start_def)
  qed
qed (simp_all add: start_def)

lemma create_transfer_writes_guarded:
  assumes run: "create_transfer e d req = (r, s)"
    and wr: "\<exists>c\<in>set (st_trace s). is_write c"
  shows "\<exists>u rq src dst.
             authenticate e (ct_authorization req) = Inr u \<and> ct_json req = Some rq
             \<and> 0 < ct_amount rq
             \<and> filter (\<lambda>a. acc_id a = from_account_id rq \<and> acc_user_id a = user_id u
                  \<and> acc_status a = ''active'') (accounts d) = [src]
             \<and> ct_amount rq \<le> acc_balance src
             \<and> filter (\<lambda>a. acc_number a = ct_to_account_number rq
                  \<and> acc_status a = ''active'') (accounts d) = [dst]"
  using run
proof (cases rule: create_transfer_cases)
  case (guarded u rq)
  from guarded(4) show ?thesis
  proof (cases rule: ct_guarded_cases)
    case rejected
    with wr show ?thesis by (auto simp: start_def)
  next
    case (executed fa ta)
    with guarded show ?thesis by (auto simp: start_def)
  qed
qed (use wr in \<open>auto simp: start_def\<close>)

lemma serve_transfer_trace:
  assumes run: "serve e d req = (r, s)" and js: "tx_json req = Some (Transfer_request tf)"
  shows "map call_site (st_trace s) \<in> set
        [[], [TR_select_from], [TR_select_from, TR_select_to],
         [TR_select_from, TR_select_to, TR_rpc_reference, TR_update_from, TR_update_to,
          TR_insert_transfer, TR_insert_transactions]]"
  using run js
proof (cases rule: serve_transfer_cases)
  case (transfer u)
  from transfer(3) show ?thesis
  proof (cases rule: handleTransfer_cases)
    case rejected
    then show ?thesis by (auto simp: start_def)
  next
    case (executed fa ta)
    from tf_execute_result(4)[OF executed(7)] show ?thesis by (simp add: start_def)
  qed
qed (simp_all add: start_def)

lemma serve_transfer_writes_guarded:
  assumes run: "serve e d req = (r, s)" and js: "tx_json req = Some (Transfer_request tf)"
    and wr: "\<exists>c\<in>set (st_trace s). is_write c"
  shows "\<exists>u src dst.
             authenticate e (tx_authorization req) = Inr u
             \<and> 0 < tf_amount tf
             \<and> filter (\<lambda>a. acc_number a = from_account_number tf \<and> acc_user_id a = user_id u
                  \<and> acc_status a = ''active'') (accounts d) = [src]
             \<and> tf_amount tf \<le> acc_balance src
             \<and> filter (\<lambda>a. acc_number a = to_account_number tf
                  \<and> acc_status a = ''active'') (accounts d) = [dst]"
  using run js
proof (cases rule: serve_transfer_cases)
  case (transfer u)
  from transfer(3) show ?thesis
  proof (cases rule: handleTransfer_cases)
    case rejected
    with wr show ?thesis by (auto simp: start_def)
  next
    case (executed fa ta)
    with transfer show ?thesis by (auto simp: start_def)
  qed
qed (use wr in \<open>auto simp: start_def\<close>)

subsection \<open>The order of the steps of a transfer\<close>

text \<open>
  C6. In every run of create-transfer, and in every run of create-transaction on a
  transfer body, the database calls are issued in the order of the source: the read of
  the source account, the read of the destination account, the reference number, the
  update of the source balance, the update of the destination balance, (in
  create-transfer, the rollback when that update failed,) the transfer record, the
  transaction records. A run stops early only at the places listed. Whenever a run has
  issued a write, the caller was authenticated and every guard had passed: the amount is
  positive, the read of the source account found one active account of the caller, its
  balance covers the amount, and the read of the destination found one active account.
\<close>

theorem transfer_steps_in_order:
  "(create_transfer e d req = (r, s) \<longrightarrow>
      map call_site (st_trace s) \<in> set
        [[], [CT_select_from], [CT_select_from, CT_select_to],
         [CT_select_from, CT_select_to, CT_rpc_reference, CT_update_from],
         [CT_select_from, CT_select_to, CT_rpc_reference, CT_update_from, CT_update_to,
          CT_rollback_from],
         [CT_select_from, CT_select_to, CT_rpc_reference, CT_update_from, CT_update_to,
          CT_insert_transfer],
         [CT_select_from, CT_select_to, CT_rpc_reference, CT_update_from, CT_update_to,
          CT_insert_transfer, CT_insert_transactions]]
      \<and> ((\<exists>c\<in>set (st_trace s). is_write c) \<longrightarrow>
          (\<exists>u rq src dst.
             authenticate e (ct_authorization req) = Inr u \<and> ct_json req = Some rq
             \<and> 0 < ct_amount rq
             \<and> filter (\<lambda>a. acc_id a = from_account_id rq \<and> acc_user_id a = user_id u
                  \<and> acc_status a = ''active'') (accounts d) = [src]
             \<and> ct_amount rq \<le> acc_balance src
             \<and> filter (\<lambda>a. acc_number a = ct_to_account_number rq
                  \<and> acc_status a = ''active'') (accounts d) = [dst])))
   \<and> (serve e d req' = (r', s') \<and> tx_json req' = Some (Transfer_request tf) \<longrightarrow>
      map call_site (st_trace s') \<in> set
        [[], [TR_select_from], [TR_select_from, TR_select_to],
         [TR_select_from, TR_select_to, TR_rpc_reference, TR_update_from, TR_update_to,
          TR_insert_transfer, TR_insert_transactions]]
      \<and> ((\<exists>c\<in>set (st_trace s'). is_write c) \<longrightarrow>
          (\<exists>u src dst.
             authenticate e (tx_authorization req') = Inr u
             \<and> 0 < tf_amount tf
             \<and> filter (\<lambda>a. acc_number a = from_account_number tf \<and> acc_user_id a = user_id u
                  \<and> acc_status a = ''active'') (accounts d) = [src]
             \<and> tf_amount tf \<le> acc_balance src
             \<and> filter (\<lambda>a. acc_number a = to_account_number tf
                  \<and> acc_status a = ''active'') (accounts d) = [dst])))"
  apply (intro conjI impI)
     apply (erule create_transfer_trace)
    apply (erule (1) create_transfer_writes_guarded)
   apply (elim conjE, erule (1) serve_transfer_trace)
  apply (elim conjE, erule (2) serve_transfer_writes_guarded)
  done

theorem transfer_steps_in_order_witness:
  "(\<exists>c\<in>set (st_trace (snd (create_transfer env_ok db0
        (post_create_transfer ''a1'' ''1000000002'' 10)))). is_write c)
   \<and> map call_site (st_trace (snd (create_transfer env_ok db0
        (post_create_transfer ''a1'' ''1000000002'' 10))))
      = [CT_select_from, CT_select_to, CT_rpc_reference, CT_update_from, CT_update_to,
          CT_insert_transfer, CT_insert_transactions]
   \<and> (\<exists>u rq src dst.
         authenticate env_ok (ct_authorization (post_create_transfer ''a1'' ''1000000002'' 10))
           = Inr u
         \<and> ct_json (post_create_transfer ''a1'' ''1000000002'' 10) = Some rq
         \<and> 0 < ct_amount rq
         \<and> filter (\<lambda>a. acc_id a = from_account_id rq \<and> acc_user_id a = user_id u
                  \<and> acc_status a = ''active'') (accounts db0) = [src]
         \<and> ct_amount rq \<le> acc_balance src
         \<and> filter (\<lambda>a. acc_number a = ct_to_account_number rq
                  \<and> acc_status a = ''active'') (accounts db0) = [dst])
   \<and> (\<exists>c\<in>set (st_trace (snd (serve env_ok db0
        (post_transfer ''1000000001'' ''1000000002'' 10)))). is_write c)
   \<and> map call_site (st_trace (snd (serve env_ok db0
        (post_transfer ''1000000001'' ''1000000002'' 10))))
      = [TR_select_from, TR_select_to, TR_rpc_reference, TR_update_from, TR_update_to,
          TR_insert_transfer, TR_insert_transactions]"
proof -
  let ?c = "create_transfer env_ok db0 (post_create_transfer ''a1'' ''1000000002'' 10)"
  let ?t = "serve env_ok db0 (post_transfer ''1000000001'' ''1000000002'' 10)"
  have tc: "map call_site (st_trace (snd ?c))
      = [CT_select_from, CT_select_to, CT_rpc_reference, CT_update_from, CT_update_to,
          CT_insert_transfer, CT_insert_transactions]"
    by (simp add: eval_defs)
  have tt: "map call_site (st_trace (snd ?t))
      = [TR_select_from, TR_select_to, TR_rpc_reference, TR_update_from, TR_update_to,
          TR_insert_transfer, TR_insert_transactions]"
    by (simp add: eval_defs)
  have wc: "\<exists>c\<in>set (st_trace (snd ?c)). is_write c"
    by (simp add: eval_defs)
  have wt: "\<exists>c\<in>set (st_trace (snd ?t)). is_write c"
    by (simp add: eval_defs)
  note th = transfer_steps_in_order
    [where e = env_ok and d = db0
       and req = "post_create_transfer ''a1'' ''1000000002'' 10"
       and r = "fst ?c" and s = "snd ?c"
       and req' = "post_transfer ''1000000001'' ''1000000002'' 10"
       and r' = "fst ?t" and s' = "snd ?t"
       and tf = "\<lparr>from_account_number = ''1000000001'',
                   to_account_number = ''1000000002'', tf_amount = 10, tf_notes = None\<rparr>"]
  from th wc have "\<exists>u rq src dst.
         authenticate env_ok (ct_authorization (post_create_transfer ''a1'' ''1000000002'' 10))
           = Inr u
         \<and> ct_json (post_create_transfer ''a1'' ''1000000002'' 10) = Some rq
         \<and> 0 < ct_amount rq
         \<and> filter (\<lambda>a. acc_id a = from_account_id rq \<and> acc_user_id a = user_id u
                  \<and> acc_status a = ''active'') (accounts db0) = [src]
         \<and> ct_amount rq \<le> acc_balance src
         \<and> filter (\<lambda>a. acc_number a = ct_to_account_number rq
                  \<and> acc_status a = ''active'') (accounts db0) = [dst]"
    by simp
  with tc tt wc wt show ?thesis by simp
qed

subsection \<open>What a completed transfer has written\<close>

lemma ct_records_fields:
  "\<exists>debit credit. ct_records e rq fa ta ref = [debit, credit]
     \<and> tx_account_id debit = Some (acc_id fa) \<and> tx_amount debit = - ct_amount rq
     \<and> tx_balance_after debit = acc_balance fa - ct_amount rq
     \<and> tx_reference_number debit = ref
     \<and> tx_account_id credit = Some (acc_id ta) \<and> tx_amount credit = ct_amount rq
     \<and> tx_balance_after credit = acc_balance ta + ct_amount rq
     \<and> tx_reference_number credit = ref"
  by (simp add: ct_records_def)

lemma tf_records_fields:
  "\<exists>first second. tf_records e rq fa ta ref = [first, second]
     \<and> tx_account_number first = Some (acc_number fa) \<and> tx_amount first = tf_amount rq
     \<and> tx_balance_after first = acc_balance fa - tf_amount rq
     \<and> tx_reference_number first = ref
     \<and> tx_account_number second = Some (acc_number ta) \<and> tx_amount second = tf_amount rq
     \<and> tx_balance_after second = acc_balance ta + tf_amount rq
     \<and> tx_reference_number second = ref"
  by (simp add: tf_records_def)

lemma create_transfer_completed:
  assumes run: "create_transfer e d req = (r, s)"
    and m: "ct_method req \<noteq> OPTIONS" and ok: "status r = 200"
  obtains u rq src dst where
    "authenticate e (ct_authorization req) = Inr u" "ct_json req = Some rq"
    "src \<in> set (accounts d)" "dst \<in> set (accounts d)"
    "acc_id src = from_account_id rq" "acc_user_id src = user_id u"
    "acc_number dst = ct_to_account_number rq" "acc_id src \<noteq> acc_id dst"
    "body r = Transfer_body
         (Some (transfer_record e CT_insert_transfer src dst (ct_amount rq)
                  (rpc_data e CT_rpc_reference (generate_reference_number e)) (ct_notes rq)))
         (rpc_data e CT_rpc_reference (generate_reference_number e))"
    "accounts (st_db s)
         = accounts (set_balance acc_id (acc_id dst) (acc_balance dst + ct_amount rq)
                   (set_balance acc_id (acc_id src) (acc_balance src - ct_amount rq) d))"
    "transfers (st_db s) = transfers d @
         [transfer_record e CT_insert_transfer src dst (ct_amount rq)
            (rpc_data e CT_rpc_reference (generate_reference_number e)) (ct_notes rq)]"
    "transactions (st_db s)
         = (if fails e CT_insert_transactions then transactions d
            else transactions d @
              ct_records e rq src dst (rpc_data e CT_rpc_reference (generate_reference_number e)))"
  using run
proof (cases rule: create_transfer_cases)
  case preflight
  with m show ?thesis by simp
next
  case unauthenticated
  with ok authenticate_Inl show ?thesis by fastforce
next
  case malformed
  with ok show ?thesis by simp
next
  case (guarded u rq)
  from guarded(4) show ?thesis
  proof (cases rule: ct_guarded_cases)
    case rejected
    with ok show ?thesis by auto
  next
    case (executed fa ta)
    note f = filter_singleton_mem[OF executed(3)] filter_singleton_mem[OF executed(6)]
    from executed(8) show ?thesis
    proof (cases rule: ct_execute_cases)
      case completed
      show ?thesis
        by (rule that[of u rq fa ta]) (use guarded executed completed f in \<open>simp_all add: start_def\<close>)
    qed (use ok in \<open>simp_all add: thrown_def\<close>)
  qed
qed

lemma create_transfer_moves_amount:
  assumes run: "create_transfer e d req = (r, s)"
    and m: "ct_method req \<noteq> OPTIONS" and ok: "status r = 200"
    and pk: "distinct (map acc_id (accounts d))"
  shows "\<exists>rq src dst. ct_json req = Some rq \<and> src \<in> set (accounts d) \<and> dst \<in> set (accounts d)
     \<and> acc_id src = from_account_id rq \<and> acc_number dst = ct_to_account_number rq
     \<and> src \<noteq> dst
     \<and> accounts (st_db s)
        = map (\<lambda>a. if a = src then a\<lparr>acc_balance := acc_balance a - ct_amount rq\<rparr>
                   else if a = dst then a\<lparr>acc_balance := acc_balance a + ct_amount rq\<rparr>
                   else a) (accounts d)"
  using run m ok
proof (cases rule: create_transfer_completed)
  case (1 u rq src dst)
  have eq: "\<And>a b. a \<in> set (accounts d) \<Longrightarrow> b \<in> set (accounts d) \<Longrightarrow> acc_id a = acc_id b \<longleftrightarrow> a = b"
    using distinct_same_id[OF pk] by blast
  have "accounts (st_db s)
        = map (\<lambda>a. if a = src then a\<lparr>acc_balance := acc_balance a - ct_amount rq\<rparr>
                   else if a = dst then a\<lparr>acc_balance := acc_balance a + ct_amount rq\<rparr>
                   else a) (accounts d)"
    unfolding 1(10) accounts_set_balance map_map
  proof (rule map_cong[OF refl])
    fix x assume x: "x \<in> set (accounts d)"
    have a: "(acc_id x = acc_id src) = (x = src)" "(acc_id x = acc_id dst) = (x = dst)"
      using eq[OF x 1(3)] eq[OF x 1(4)] by simp_all
    show "((\<lambda>a. if acc_id a = acc_id dst then a\<lparr>acc_balance := acc_balance dst + ct_amount rq\<rparr>
                else a) \<circ>
          (\<lambda>a. if acc_id a = acc_id src then a\<lparr>acc_balance := acc_balance src - ct_amount rq\<rparr>
                else a)) x
        = (if x = src then x\<lparr>acc_balance := acc_balance x - ct_amount rq\<rparr>
           else if x = dst then x\<lparr>acc_balance := acc_balance x + ct_amount rq\<rparr> else x)"
      using a 1(8) by auto
  qed
  moreover have "src \<noteq> dst" using 1(8) by auto
  ultimately show ?thesis using 1(2,3,4,5,7) by blast
qed


lemma serve_transfer_completed:
  assumes run: "serve e d req = (r, s)" and js: "tx_json req = Some (Transfer_request tf)"
    and ok: "status r = 201"
  obtains u src dst where
    "authenticate e (tx_authorization req) = Inr u"
    "src \<in> set (accounts d)" "dst \<in> set (accounts d)"
    "acc_number src = from_account_number tf" "acc_user_id src = user_id u"
    "acc_number dst = to_account_number tf"
    "body r = Transfer_body
           (if fails e TR_insert_transfer then None
            else Some (transfer_record e TR_insert_transfer src dst (tf_amount tf)
                    (rpc_data e TR_rpc_reference (generate_reference_number e)) (tf_notes tf)))
           (rpc_data e TR_rpc_reference (generate_reference_number e))"
    "transactions (st_db s)
           = (if fails e TR_insert_transactions then transactions d
              else transactions d @
                tf_records e tf src dst
                  (rpc_data e TR_rpc_reference (generate_reference_number e)))"
  using run js
proof (cases rule: serve_transfer_cases)
  case preflight
  with ok show ?thesis by simp
next
  case unauthenticated
  with ok authenticate_Inl show ?thesis by fastforce
next
  case (transfer u)
  from transfer(3) show ?thesis
  proof (cases rule: handleTransfer_cases)
    case rejected
    with ok show ?thesis by auto
  next
    case (executed fa ta)
    note f = filter_singleton_mem[OF executed(3)] filter_singleton_mem[OF executed(6)]
    note t = tf_execute_result[OF executed(7)]
    show ?thesis
      by (rule that[of u fa ta]) (use transfer f t in \<open>simp_all add: start_def\<close>)
  qed
qed

lemma create_transfer_records:
  assumes run: "create_transfer e d req = (r, s)"
    and m: "ct_method req \<noteq> OPTIONS" and ok: "status r = 200"
    and ins: "\<not> fails e CT_insert_transactions"
  shows "\<exists>rq src dst tr debit credit.
        ct_json req = Some rq \<and> src \<in> set (accounts d) \<and> dst \<in> set (accounts d)
        \<and> acc_id src = from_account_id rq \<and> acc_number dst = ct_to_account_number rq
        \<and> transfers (st_db s) = transfers d @ [tr]
        \<and> body r = Transfer_body (Some tr) (tr_reference_number tr)
        \<and> transactions (st_db s) = transactions d @ [debit, credit]
        \<and> tx_account_id debit = Some (acc_id src) \<and> tx_amount debit = - ct_amount rq
        \<and> tx_balance_after debit = acc_balance src - ct_amount rq
        \<and> tx_account_id credit = Some (acc_id dst) \<and> tx_amount credit = ct_amount rq
        \<and> tx_balance_after credit = acc_balance dst + ct_amount rq
        \<and> tx_reference_number debit = tr_reference_number tr
        \<and> tx_reference_number credit = tr_reference_number tr
        \<and> tx_amount debit + tx_amount credit = 0
        \<and> (\<forall>a\<in>set (accounts (st_db s)).
              (acc_id a = acc_id src \<longrightarrow> acc_balance a = tx_balance_after debit)
              \<and> (acc_id a = acc_id dst \<longrightarrow> acc_balance a = tx_balance_after credit))"
  using run m ok
proof (cases rule: create_transfer_completed)
  case (1 u rq src dst)
  let ?ref = "rpc_data e CT_rpc_reference (generate_reference_number e)"
  let ?tr = "transfer_record e CT_insert_transfer src dst (ct_amount rq) ?ref (ct_notes rq)"
  obtain debit credit where dc: "ct_records e rq src dst ?ref = [debit, credit]"
     "tx_account_id debit = Some (acc_id src)" "tx_amount debit = - ct_amount rq"
     "tx_balance_after debit = acc_balance src - ct_amount rq"
     "tx_reference_number debit = ?ref"
     "tx_account_id credit = Some (acc_id dst)" "tx_amount credit = ct_amount rq"
     "tx_balance_after credit = acc_balance dst + ct_amount rq"
     "tx_reference_number credit = ?ref"
    using ct_records_fields[of e rq src dst ?ref] by blast
  have ref: "tr_reference_number ?tr = ?ref" by (simp add: transfer_record_def)
  have bal: "\<forall>a\<in>set (accounts (st_db s)).
              (acc_id a = acc_id src \<longrightarrow> acc_balance a = tx_balance_after debit)
              \<and> (acc_id a = acc_id dst \<longrightarrow> acc_balance a = tx_balance_after credit)"
    unfolding 1(10) accounts_set_balance dc using 1(8) by auto
  have txs: "transactions (st_db s) = transactions d @ [debit, credit]"
    using 1(12) ins dc(1) by simp
  have sum0: "tx_amount debit + tx_amount credit = 0" using dc by simp
  have bd: "body r = Transfer_body (Some ?tr) (tr_reference_number ?tr)"
    unfolding ref by (rule 1(9))
  have rd: "tx_reference_number debit = tr_reference_number ?tr"
    and rc: "tx_reference_number credit = tr_reference_number ?tr"
    unfolding ref by (rule dc(5), rule dc(9))
  show ?thesis
    apply (rule exI[of _ rq], rule exI[of _ src], rule exI[of _ dst], rule exI[of _ ?tr],
        rule exI[of _ debit], rule exI[of _ credit])
    apply (intro conjI)
    apply (rule 1(2) 1(3) 1(4) 1(5) 1(7) 1(11) bd txs dc(2) dc(3) dc(4) dc(6) dc(7) dc(8)
        rd rc sum0 bal)+
    done
qed

lemma serve_transfer_records:
  assumes run: "serve e d req = (r, s)" and js: "tx_json req = Some (Transfer_request tf)"
    and ok: "status r = 201" and ins: "\<not> fails e TR_insert_transactions"
  shows "\<exists>src dst first second t ref.
        src \<in> set (accounts d) \<and> dst \<in> set (accounts d)
        \<and> acc_number src = from_account_number tf \<and> acc_number dst = to_account_number tf
        \<and> body r = Transfer_body t ref
        \<and> transactions (st_db s) = transactions d @ [first, second]
        \<and> tx_account_number first = Some (acc_number src) \<and> tx_amount first = tf_amount tf
        \<and> tx_balance_after first = acc_balance src - tf_amount tf
        \<and> tx_account_number second = Some (acc_number dst) \<and> tx_amount second = tf_amount tf
        \<and> tx_balance_after second = acc_balance dst + tf_amount tf
        \<and> tx_reference_number first = ref \<and> tx_reference_number second = ref"
  using run js ok
proof (cases rule: serve_transfer_completed)
  case (1 u src dst)
  let ?ref = "rpc_data e TR_rpc_reference (generate_reference_number e)"
  obtain first second where fs: "tf_records e tf src dst ?ref = [first, second]"
     "tx_account_number first = Some (acc_number src)" "tx_amount first = tf_amount tf"
     "tx_balance_after first = acc_balance src - tf_amount tf"
     "tx_reference_number first = ?ref"
     "tx_account_number second = Some (acc_number dst)" "tx_amount second = tf_amount tf"
     "tx_balance_after second = acc_balance dst + tf_amount tf"
     "tx_reference_number second = ?ref"
    using tf_records_fields[of e tf src dst ?ref] by blast
  have txs: "transactions (st_db s) = transactions d @ [first, second]"
    using 1(8) ins fs(1) by simp
  show ?thesis
    apply (rule exI[of _ src], rule exI[of _ dst], rule exI[of _ first], rule exI[of _ second])
    apply (intro exI conjI)
    apply (rule 1(2) 1(3) 1(4) 1(6) 1(7) txs fs(2) fs(3) fs(4) fs(5) fs(6) fs(7) fs(8) fs(9))+
    done
qed

subsection \<open>The balances after a transfer\<close>

text \<open>
  C1 holds of create-transfer (\<open>create_transfer_moves_amount\<close> above: with account ids
  that are unique, a run that ends with status 200 has taken the amount from the source
  account, added it to the destination account and left every other account alone). It
  fails in \<open>handleTransfer\<close> of create-transaction, which has no check that the two
  accounts differ and looks at the error of none of its updates. Alice transfers 10 from
  her account 1000000001, which holds 100, to that same account: the answer is status
  201, and the account holds 110. The update of the destination, computed from the
  balance read before the update of the source, has overwritten it. create-transfer
  refuses the same request with status 400.
\<close>

theorem handleTransfer_same_account:
  "status (fst (serve env_ok db0 (post_transfer ''1000000001'' ''1000000001'' 10))) = 201
   \<and> map (\<lambda>a. (acc_number a, acc_balance a)) (accounts db0)
       = [(''1000000001'', 100), (''1000000002'', 50)]
   \<and> map (\<lambda>a. (acc_number a, acc_balance a))
        (accounts (st_db (snd (serve env_ok db0
           (post_transfer ''1000000001'' ''1000000001'' 10)))))
       = [(''1000000001'', 110), (''1000000002'', 50)]
   \<and> fst (create_transfer env_ok db0 (post_create_transfer ''a1'' ''1000000001'' 10))
       = error_response 400 ''Cannot transfer to the same account''"
  by (simp add: eval_defs)

lemma handleTransfer_ignores_update_error:
  "status (fst (serve (env_failing TR_update_from) db0
       (post_transfer ''1000000001'' ''1000000002'' 10))) = 201
   \<and> map (\<lambda>a. (acc_number a, acc_balance a))
        (accounts (st_db (snd (serve (env_failing TR_update_from) db0
           (post_transfer ''1000000001'' ''1000000002'' 10)))))
       = [(''1000000001'', 100), (''1000000002'', 60)]"
  by (simp add: eval_defs)

subsection \<open>The transaction records of a transfer\<close>

text \<open>
  C2, as the code has it. A transfer that ends with success, and whose insert of the
  transaction records the database has accepted, has added exactly two transaction
  records, one on the source account and one on the destination account, with the
  reference number of the transfer and with the balances the handler computed, the
  source balance it read less the amount and the destination balance it read plus the
  amount. In create-transfer the amount of the first is the negated amount and that of
  the second the amount, so they sum to zero, and the balances recorded are those the
  accounts now have. In \<open>handleTransfer\<close> of create-transaction both records carry the
  amount itself.
\<close>

theorem transfer_transaction_records:
  "(create_transfer e d req = (r, s) \<and> ct_method req \<noteq> OPTIONS \<and> status r = 200
      \<and> \<not> fails e CT_insert_transactions \<longrightarrow>
     (\<exists>rq src dst tr debit credit.
        ct_json req = Some rq \<and> src \<in> set (accounts d) \<and> dst \<in> set (accounts d)
        \<and> acc_id src = from_account_id rq \<and> acc_number dst = ct_to_account_number rq
        \<and> transfers (st_db s) = transfers d @ [tr]
        \<and> body r = Transfer_body (Some tr) (tr_reference_number tr)
        \<and> transactions (st_db s) = transactions d @ [debit, credit]
        \<and> tx_account_id debit = Some (acc_id src) \<and> tx_amount debit = - ct_amount rq
        \<and> tx_balance_after debit = acc_balance src - ct_amount rq
        \<and> tx_account_id credit = Some (acc_id dst) \<and> tx_amount credit = ct_amount rq
        \<and> tx_balance_after credit = acc_balance dst + ct_amount rq
        \<and> tx_reference_number debit = tr_reference_number tr
        \<and> tx_reference_number credit = tr_reference_number tr
        \<and> tx_amount debit + tx_amount credit = 0
        \<and> (\<forall>a\<in>set (accounts (st_db s)).
              (acc_id a = acc_id src \<longrightarrow> acc_balance a = tx_balance_after debit)
              \<and> (acc_id a = acc_id dst \<longrightarrow> acc_balance a = tx_balance_after credit))))
   \<and> (serve e d req' = (r', s') \<and> tx_json req' = Some (Transfer_request tf)
      \<and> status r' = 201 \<and> \<not> fails e TR_insert_transactions \<longrightarrow>
     (\<exists>src dst first second t ref.
        src \<in> set (accounts d) \<and> dst \<in> set (accounts d)
        \<and> acc_number src = from_account_number tf \<and> acc_number dst = to_account_number tf
        \<and> body r' = Transfer_body t ref
        \<and> transactions (st_db s') = transactions d @ [first, second]
        \<and> tx_account_number first = Some (acc_number src) \<and> tx_amount first = tf_amount tf
        \<and> tx_balance_after first = acc_balance src - tf_amount tf
        \<and> tx_account_number second = Some (acc_number dst) \<and> tx_amount second = tf_amount tf
        \<and> tx_balance_after second = acc_balance dst + tf_amount tf
        \<and> tx_reference_number first = ref \<and> tx_reference_number second = ref))"
  apply (intro conjI impI)
   apply (elim conjE, erule (3) create_transfer_records)
  apply (elim conjE, erule (3) serve_transfer_records)
  done

theorem transfer_transaction_records_witness:
  "status (fst (create_transfer env_ok db0 (post_create_transfer ''a1'' ''1000000002'' 10))) = 200
   \<and> \<not> fails env_ok CT_insert_transactions
   \<and> (\<exists>debit credit.
        transactions (st_db (snd (create_transfer env_ok db0
          (post_create_transfer ''a1'' ''1000000002'' 10)))) = [debit, credit]
        \<and> tx_amount debit = - 10 \<and> tx_amount credit = 10)
   \<and> status (fst (serve env_ok db0 (post_transfer ''1000000001'' ''1000000002'' 10))) = 201
   \<and> \<not> fails env_ok TR_insert_transactions
   \<and> (\<exists>first second.
        transactions (st_db (snd (serve env_ok db0
          (post_transfer ''1000000001'' ''1000000002'' 10)))) = [first, second]
        \<and> tx_amount first = 10 \<and> tx_amount second = 10)"
proof -
  let ?rq = "post_create_transfer ''a1'' ''1000000002'' 10"
  let ?rq' = "post_transfer ''1000000001'' ''1000000002'' 10"
  let ?tf = "\<lparr>from_account_number = ''1000000001'', to_account_number = ''1000000002'',
              tf_amount = 10, tf_notes = None\<rparr>"
  let ?c = "create_transfer env_ok db0 ?rq"
  let ?t = "serve env_ok db0 ?rq'"
  have c1: "?c = (fst ?c, snd ?c)" and t1: "?t = (fst ?t, snd ?t)" by simp_all
  have m: "ct_method ?rq \<noteq> OPTIONS" by (simp add: post_create_transfer_def)
  have js: "tx_json ?rq' = Some (Transfer_request ?tf)" by (simp add: post_transfer_def)
  have sc: "status (fst ?c) = 200" by (simp add: eval_defs)
  have stt: "status (fst ?t) = 201" by (simp add: eval_defs)
  have f: "\<not> fails env_ok CT_insert_transactions" "\<not> fails env_ok TR_insert_transactions"
    by (simp_all add: env_ok_def)
  have amt: "\<And>rq. ct_json ?rq = Some rq \<Longrightarrow> ct_amount rq = 10"
    by (auto simp: post_create_transfer_def)
  have e0: "transactions db0 = []" by (simp add: db0_def)
  note th = transfer_transaction_records
    [where e = env_ok and d = db0 and req = ?rq and r = "fst ?c" and s = "snd ?c"
       and req' = ?rq' and r' = "fst ?t" and s' = "snd ?t" and tf = ?tf]
  from th c1 m sc f(1) obtain rq debit credit where
      "ct_json ?rq = Some rq"
      "transactions (st_db (snd ?c)) = transactions db0 @ [debit, credit]"
      "tx_amount debit = - ct_amount rq" "tx_amount credit = ct_amount rq"
    by blast
  with amt e0 have A: "\<exists>debit credit.
        transactions (st_db (snd ?c)) = [debit, credit]
        \<and> tx_amount debit = - 10 \<and> tx_amount credit = 10"
    by auto
  from th t1 js stt f(2) obtain first second where
      "transactions (st_db (snd ?t)) = transactions db0 @ [first, second]"
      "tx_amount first = tf_amount ?tf" "tx_amount second = tf_amount ?tf"
    by blast
  with e0 have B: "\<exists>first second.
        transactions (st_db (snd ?t)) = [first, second]
        \<and> tx_amount first = 10 \<and> tx_amount second = 10"
    by auto
  from sc stt f A B show ?thesis by blast
qed

text \<open>
  In \<open>handleTransfer\<close> the record on the source account is not a negated amount: after
  a transfer of 10 both records have the amount 10, and the amounts do not sum to zero.
\<close>

theorem transfer_transaction_records_counterexample:
  "status (fst (serve env_ok db0 (post_transfer ''1000000001'' ''1000000002'' 10))) = 201
   \<and> map (\<lambda>t. (tx_account_number t, tx_amount t, tx_balance_after t))
        (transactions (st_db (snd (serve env_ok db0
           (post_transfer ''1000000001'' ''1000000002'' 10)))))
       = [(Some ''1000000001'', 10, 90), (Some ''1000000002'', 10, 60)]
   \<and> sum_list (map tx_amount (transactions (st_db (snd (serve env_ok db0
           (post_transfer ''1000000001'' ''1000000002'' 10)))))) \<noteq> 0"
  by (simp add: eval_defs)

subsection \<open>The rollback of a transfer\<close>

text \<open>
  create-transfer undoes the update of the source balance when the update of the
  destination balance fails: its last call is then an update that sets the balance of
  the source account back to the value read, the answer is status 500, and when that
  update succeeds (and account ids are unique) the database is the one the request
  started with.
\<close>

lemma create_transfer_rollback:
  assumes run: "create_transfer e d req = (r, s)"
    and reached: "CT_update_to \<in> set (map call_site (st_trace s))"
    and f1: "\<not> fails e CT_update_from" and f2: "fails e CT_update_to"
  shows "status r = 500
     \<and> (\<exists>src\<in>set (accounts d). \<exists>calls.
           st_trace s = calls @ [Write CT_rollback_from
                                   (Set_balance (acc_id src) (acc_balance src))])
     \<and> (\<not> fails e CT_rollback_from \<and> distinct (map acc_id (accounts d)) \<longrightarrow> st_db s = d)"
  using run
proof (cases rule: create_transfer_cases)
  case (guarded u rq)
  from guarded(4) show ?thesis
  proof (cases rule: ct_guarded_cases)
    case rejected
    with reached show ?thesis by (auto simp: start_def)
  next
    case (executed fa ta)
    have mem: "fa \<in> set (accounts d)"
      using filter_singleton_mem[OF executed(3)] by (simp add: start_def)
    from executed(8) show ?thesis
    proof (cases rule: ct_execute_cases)
      case update_to_failed
      then show ?thesis using mem set_balance_undo[of d fa]
        by (auto simp: thrown_def start_def)
    qed (use f1 f2 in auto)
  qed
qed (use reached in \<open>auto simp: start_def\<close>)

text \<open>
  C4 fails in \<open>handleTransfer\<close> of create-transaction, which looks at the error of
  neither update. Alice transfers 10 from her account, which holds 100, to Bob's, which
  holds 50, and the database accepts the update of the source balance and rejects that
  of the destination balance. The handler issues no compensating update: it goes on to
  insert the transfer record and the transaction records and answers with status 201.
  The source account holds 90, the destination account still 50. create-transfer, on
  the same transfer with the same failure, answers with status 500 after the rollback
  and leaves the database as it was.
\<close>

theorem handleTransfer_no_rollback:
  "\<not> fails (env_failing TR_update_to) TR_update_from
   \<and> fails (env_failing TR_update_to) TR_update_to
   \<and> status (fst (serve (env_failing TR_update_to) db0
        (post_transfer ''1000000001'' ''1000000002'' 10))) = 201
   \<and> map call_site (st_trace (snd (serve (env_failing TR_update_to) db0
        (post_transfer ''1000000001'' ''1000000002'' 10))))
       = [TR_select_from, TR_select_to, TR_rpc_reference, TR_update_from, TR_update_to,
          TR_insert_transfer, TR_insert_transactions]
   \<and> map (\<lambda>a. (acc_number a, acc_balance a)) (accounts db0)
       = [(''1000000001'', 100), (''1000000002'', 50)]
   \<and> map (\<lambda>a. (acc_number a, acc_balance a))
        (accounts (st_db (snd (serve (env_failing TR_update_to) db0
           (post_transfer ''1000000001'' ''1000000002'' 10)))))
       = [(''1000000001'', 90), (''1000000002'', 50)]
   \<and> status (fst (create_transfer (env_failing CT_update_to) db0
        (post_create_transfer ''a1'' ''1000000002'' 10))) = 500
   \<and> map call_site (st_trace (snd (create_transfer (env_failing CT_update_to) db0
        (post_create_transfer ''a1'' ''1000000002'' 10))))
       = [CT_select_from, CT_select_to, CT_rpc_reference, CT_update_from, CT_update_to,
          CT_rollback_from]
   \<and> st_db (snd (create_transfer (env_failing CT_update_to) db0
        (post_create_transfer ''a1'' ''1000000002'' 10))) = db0"
  by (simp add: eval_defs)

subsection \<open>Authentication\<close>

lemmas more_defs = get_balance_def get_accounts_def get_transactions_def create_account_def
  signup_def or_else_def gb_filter_def order_desc_def summary_def insert_account_def
  insert_profile_def alice_profile_def tx1_def tx2_def tr1_def db2_def get_balance_of_def

lemmas query_defs = more_defs get_transactions_of_def signup_carol_def utf16_def
  parseInt_def is_space_def digit_value_def slice0_def sort_recent_first_def
  order_transfers_def completed_def transaction_entry_of_def transfer_entry_of_def
  account_number_of_def Let_def

lemma authenticate_rejects:
  "h = None \<or> h = Some [] \<or> (\<exists>t. h = Some t \<and> getUser e (replace_first ''Bearer '' [] t) = None)
   \<Longrightarrow> \<exists>r. authenticate e h = Inl r \<and> status r = 401"
  by (auto simp: authenticate_def error_response_def)

lemma get_balance_unauthenticated:
  assumes "gb_method gb \<noteq> OPTIONS" "authenticate e (gb_authorization gb) = Inl r"
  shows "snd (get_balance e d gb) = start d"
    and "(\<exists>n. gb_account_number gb = Some n \<and> n \<noteq> [])
            \<or> (\<exists>v. gb_user_id gb = Some v \<and> v \<noteq> []) \<Longrightarrow> get_balance e d gb = (r, start d)"
  using assms by (auto simp: get_balance_def or_else_def Let_def)

text \<open>
  C5, as the code has it. Every handler but signup authenticates the caller before its
  first database call: a request other than a preflight that has no Authorization header
  (or an empty one), or whose token the identity provider rejects, fails authentication
  with status 401, and create-transfer, create-transaction, the account list,
  get-transactions and create-account answer with that response, the trace of database
  calls empty and the tables unchanged. get-balance does the same when one of its query
  parameters is given; it checks the parameters first, so with neither it answers 400,
  still without a database call.
\<close>

theorem unauthenticated_requests_rejected:
  "(authenticate e h = Inl r \<longrightarrow> status r = 401)
   \<and> (h = None \<or> h = Some []
        \<or> (\<exists>t. h = Some t \<and> getUser e (replace_first ''Bearer '' [] t) = None)
       \<longrightarrow> (\<exists>r. authenticate e h = Inl r))
   \<and> (ct_method ct \<noteq> OPTIONS \<and> authenticate e (ct_authorization ct) = Inl r \<longrightarrow>
        create_transfer e d ct = (r, start d))
   \<and> (tx_method tx \<noteq> OPTIONS \<and> authenticate e (tx_authorization tx) = Inl r \<longrightarrow>
        serve e d tx = (r, start d))
   \<and> (gb_method gb \<noteq> OPTIONS \<and> authenticate e (gb_authorization gb) = Inl r
        \<and> ((\<exists>n. gb_account_number gb = Some n \<and> n \<noteq> [])
            \<or> (\<exists>v. gb_user_id gb = Some v \<and> v \<noteq> [])) \<longrightarrow>
        get_balance e d gb = (r, start d))
   \<and> (gb_method gb \<noteq> OPTIONS \<and> authenticate e (gb_authorization gb) = Inl r \<longrightarrow>
        snd (get_balance e d gb) = start d)
   \<and> (ga_method ga \<noteq> OPTIONS \<and> authenticate e (ga_authorization ga) = Inl r \<longrightarrow>
        get_accounts e d ga = (r, start d))
   \<and> (gt_method gt \<noteq> OPTIONS \<and> authenticate e (gt_authorization gt) = Inl r \<longrightarrow>
        get_transactions e d gt = (r, start d))
   \<and> (ca_method ca \<noteq> OPTIONS \<and> authenticate e (ca_authorization ca) = Inl r \<longrightarrow>
        create_account e d ca = (r, start d))"
proof (intro conjI impI)
  show "authenticate e h = Inl r \<Longrightarrow> status r = 401" by (rule authenticate_Inl)
  show "h = None \<or> h = Some []
        \<or> (\<exists>t. h = Some t \<and> getUser e (replace_first ''Bearer '' [] t) = None)
       \<Longrightarrow> \<exists>r. authenticate e h = Inl r"
    using authenticate_rejects[of h e] by blast
qed (auto simp: create_transfer_def serve_def get_accounts_def get_transactions_def
      create_account_def get_balance_unauthenticated)

theorem unauthenticated_requests_rejected_witness:
  "create_transfer env_ok db0 ((post_create_transfer ''a1'' ''1000000002'' 10)
       \<lparr>ct_authorization := None\<rparr>)
     = (error_response 401 ''Missing authorization header'', start db0)
   \<and> serve env_ok db0 ((post_transfer ''1000000001'' ''1000000002'' 10)
       \<lparr>tx_authorization := Some ''Bearer forged''\<rparr>)
     = (error_response 401 ''Unauthorized'', start db0)
   \<and> get_balance env_ok db2 ((get_balance_of ''1000000001'')\<lparr>gb_authorization := None\<rparr>)
     = (error_response 401 ''Missing authorization header'', start db2)
   \<and> get_accounts env_ok db2 \<lparr>ga_method = GET, ga_authorization = Some ''Bearer forged''\<rparr>
     = (error_response 401 ''Unauthorized'', start db2)
   \<and> get_transactions env_ok db2
       ((get_transactions_of ''1000000001'' None)\<lparr>gt_authorization := None\<rparr>)
     = (error_response 401 ''Missing authorization header'', start db2)
   \<and> create_account env_ok db0
       \<lparr>ca_method = POST, ca_authorization = Some [],
        ca_json = Some \<lparr>account_type = ''Savings'', initial_deposit = Some 25\<rparr>\<rparr>
     = (error_response 401 ''Missing authorization header'', start db0)"
proof -
  have a: "authenticate env_ok None = Inl (error_response 401 ''Missing authorization header'')"
    "authenticate env_ok (Some []) = Inl (error_response 401 ''Missing authorization header'')"
    "authenticate env_ok (Some ''Bearer forged'') = Inl (error_response 401 ''Unauthorized'')"
    by (simp_all add: authenticate_def env_ok_def)
  note th1 = unauthenticated_requests_rejected[where e = env_ok and d = db0 and r = "error_response 401 ''Missing authorization header''"
      and ct = "(post_create_transfer ''a1'' ''1000000002'' 10)\<lparr>ct_authorization := None\<rparr>"
      and ca = "\<lparr>ca_method = POST, ca_authorization = Some [],
        ca_json = Some \<lparr>account_type = ''Savings'', initial_deposit = Some 25\<rparr>\<rparr>"]
  note th2 = unauthenticated_requests_rejected[where e = env_ok and d = db0 and r = "error_response 401 ''Unauthorized''"
      and tx = "(post_transfer ''1000000001'' ''1000000002'' 10)
                  \<lparr>tx_authorization := Some ''Bearer forged''\<rparr>"]
  note th3 = unauthenticated_requests_rejected[where e = env_ok and d = db2 and r = "error_response 401 ''Missing authorization header''"
      and gb = "(get_balance_of ''1000000001'')\<lparr>gb_authorization := None\<rparr>"
      and gt = "(get_transactions_of ''1000000001'' None)\<lparr>gt_authorization := None\<rparr>"]
  note th4 = unauthenticated_requests_rejected[where e = env_ok and d = db2 and r = "error_response 401 ''Unauthorized''"
      and ga = "\<lparr>ga_method = GET, ga_authorization = Some ''Bearer forged''\<rparr>"]
  have 1: "create_transfer env_ok db0 ((post_create_transfer ''a1'' ''1000000002'' 10)
       \<lparr>ct_authorization := None\<rparr>)
     = (error_response 401 ''Missing authorization header'', start db0)"
    and 6: "create_account env_ok db0
       \<lparr>ca_method = POST, ca_authorization = Some [],
        ca_json = Some \<lparr>account_type = ''Savings'', initial_deposit = Some 25\<rparr>\<rparr>
     = (error_response 401 ''Missing authorization header'', start db0)"
    using th1 a by (simp_all add: post_create_transfer_def)
  have 2: "serve env_ok db0 ((post_transfer ''1000000001'' ''1000000002'' 10)
       \<lparr>tx_authorization := Some ''Bearer forged''\<rparr>)
     = (error_response 401 ''Unauthorized'', start db0)"
    using th2 a by (simp add: post_transfer_def)
  have 3: "get_balance env_ok db2 ((get_balance_of ''1000000001'')\<lparr>gb_authorization := None\<rparr>)
     = (error_response 401 ''Missing authorization header'', start db2)"
    and 5: "get_transactions env_ok db2
       ((get_transactions_of ''1000000001'' None)\<lparr>gt_authorization := None\<rparr>)
     = (error_response 401 ''Missing authorization header'', start db2)"
    using th3 a by (simp_all add: get_balance_of_def get_transactions_of_def)
  have 4: "get_accounts env_ok db2 \<lparr>ga_method = GET, ga_authorization = Some ''Bearer forged''\<rparr>
     = (error_response 401 ''Unauthorized'', start db2)"
    using th4 a by simp
  from 1 2 3 4 5 6 show ?thesis by blast
qed

text \<open>
  signup is a handler that does not authenticate its caller: a request with no
  Authorization header is answered with status 201 after the profile has been inserted.
  And get-balance answers a request with neither header nor query parameter with
  status 400.
\<close>

theorem unauthenticated_requests_counterexample:
  "su_authorization signup_carol = None
   \<and> status (fst (signup env_ok db0 signup_carol)) = 201
   \<and> map call_site (st_trace (snd (signup env_ok db0 signup_carol))) = [SU_insert_profile]
   \<and> (\<exists>c\<in>set (st_trace (snd (signup env_ok db0 signup_carol))). is_write c)
   \<and> map pr_id (profiles (st_db (snd (signup env_ok db0 signup_carol)))) = [''carol'']
   \<and> get_balance env_ok db0
        \<lparr>gb_method = GET, gb_authorization = None, gb_account_number = None,
         gb_user_id = None\<rparr>
      = (error_response 400 ''Either account_number or user_id query parameter is required'',
         start db0)"
  by (simp add: eval_defs query_defs)

subsection \<open>get-balance\<close>

lemma order_desc_Some: "order_desc f r = Some ys \<longleftrightarrow> (\<exists>xs. r = Some xs \<and> ys = rev (sort_key f xs))"
  by (cases r) (auto simp: order_desc_def)






subsection \<open>get-transactions\<close>

lemma order_transfers_Some:
  "order_transfers r = Some ys \<Longrightarrow> \<exists>xs. r = Some xs \<and> mset ys = mset xs"
proof (cases r)
  case None
  assume "order_transfers r = Some ys"
  with None show ?thesis by (simp add: order_transfers_def)
next
  case (Some xs)
  assume "order_transfers r = Some ys"
  with Some have ys: "ys = filter (\<lambda>t. tr_completed_at t = None) xs
        @ rev (sort_key completed (filter (\<lambda>t. tr_completed_at t \<noteq> None) xs))"
    by (simp add: order_transfers_def)
  have "mset ys = filter_mset (\<lambda>t. tr_completed_at t = None) (mset xs)
        + filter_mset (\<lambda>t. tr_completed_at t \<noteq> None) (mset xs)"
    unfolding ys by simp
  then have "mset ys = mset xs" by simp
  with Some show ?thesis by simp
qed

lemma sort_recent_first_sorted:
  "sorted_wrt (\<lambda>x y. getTime y \<le> getTime x) (sort_recent_first xs)"
proof -
  have "sorted (map (\<lambda>r. - int (getTime r)) (sort_key (\<lambda>r. - int (getTime r)) xs))"
    by (rule sorted_sort_key)
  then show ?thesis
    by (simp add: sort_recent_first_def sorted_map) 
qed

lemma sort_recent_first_mset: "mset (sort_recent_first xs) = mset xs"
  by (simp add: sort_recent_first_def)

lemma slice0_take: "0 \<le> n \<Longrightarrow> slice0 (Some n) xs = take (nat n) xs"
  by (simp add: slice0_def)

lemma parseInt_50: "parseInt (utf16 ''50'') = Some 50"
  by (simp add: parseInt_def is_space_def digit_value_def utf16_def)

lemma get_transactions_ok:
  assumes run: "get_transactions e d gt = (r, s)" and m: "gt_method gt \<noteq> OPTIONS"
    and ok: "status r = 200"
  obtains u n a trs where
    "authenticate e (gt_authorization gt) = Inr u"
    "gt_account_number gt = Some n" "n \<noteq> []" "a \<in> set (accounts d)"
    "acc_number a = n" "acc_user_id a = user_id u"
    "mset trs = mset (filter (\<lambda>t. tr_from_account_id t = acc_id a
                                  \<or> tr_to_account_id t = acc_id a) (transfers d))"
    "body r = Transactions_body
       (slice0 (parseInt (or_else (gt_limit gt) (utf16 ''50'') (\<lambda>x. x)))
          (sort_recent_first
             (map transaction_entry_of
                (rev (sort_key tx_created_at
                   (filter (\<lambda>t. tx_account_number t = Some n) (transactions d))))
              @ map (transfer_entry_of d) trs)))"
  using run m ok
  apply (simp add: get_transactions_def Let_def select_from_def log_call_def start_def
      error_response_def thrown_def
      split: if_splits sum.splits option.splits)
  apply (auto simp: authenticate_Inl order_desc_Some or_else_def
      dest!: filter_singleton_mem authenticate_Inl order_transfers_Some
      split: if_splits option.splits)
  done

text \<open>
  C10, as the code has it. A successful get-transactions request is one of an
  authenticated caller on an account of theirs. The list in the response is cut from the
  merged list: the transaction records of the account number together with the transfers
  the account sends or receives, each exactly once, the most recent first. It is the
  first 50 entries of the merged list when the limit parameter is absent (or empty), and
  the first k entries when the limit reads as the natural number k.
\<close>

theorem get_transactions_listing:
  "get_transactions e d gt = (r, s) \<and> gt_method gt \<noteq> OPTIONS \<and> status r = 200 \<longrightarrow>
     (\<exists>u n a merged.
       authenticate e (gt_authorization gt) = Inr u
       \<and> gt_account_number gt = Some n \<and> a \<in> set (accounts d)
       \<and> acc_number a = n \<and> acc_user_id a = user_id u
       \<and> mset merged
          = mset (map transaction_entry_of
                   (filter (\<lambda>t. tx_account_number t = Some n) (transactions d)))
            + mset (map (transfer_entry_of d)
                   (filter (\<lambda>t. tr_from_account_id t = acc_id a
                                \<or> tr_to_account_id t = acc_id a) (transfers d)))
       \<and> sorted_wrt (\<lambda>x y. getTime y \<le> getTime x) merged
       \<and> (gt_limit gt = None \<or> gt_limit gt = Some [] \<longrightarrow>
            body r = Transactions_body (take 50 merged))
       \<and> (\<forall>l k. gt_limit gt = Some l \<and> l \<noteq> [] \<and> parseInt l = Some (int k) \<longrightarrow>
            body r = Transactions_body (take k merged)))"
proof (intro impI, elim conjE)
  assume run: "get_transactions e d gt = (r, s)" and m: "gt_method gt \<noteq> OPTIONS"
    and ok: "status r = 200"
  from run m ok show "\<exists>u n a merged.
       authenticate e (gt_authorization gt) = Inr u
       \<and> gt_account_number gt = Some n \<and> a \<in> set (accounts d)
       \<and> acc_number a = n \<and> acc_user_id a = user_id u
       \<and> mset merged
          = mset (map transaction_entry_of
                   (filter (\<lambda>t. tx_account_number t = Some n) (transactions d)))
            + mset (map (transfer_entry_of d)
                   (filter (\<lambda>t. tr_from_account_id t = acc_id a
                                \<or> tr_to_account_id t = acc_id a) (transfers d)))
       \<and> sorted_wrt (\<lambda>x y. getTime y \<le> getTime x) merged
       \<and> (gt_limit gt = None \<or> gt_limit gt = Some [] \<longrightarrow>
            body r = Transactions_body (take 50 merged))
       \<and> (\<forall>l k. gt_limit gt = Some l \<and> l \<noteq> [] \<and> parseInt l = Some (int k) \<longrightarrow>
            body r = Transactions_body (take k merged))"
  proof (cases rule: get_transactions_ok)
    case (1 u n a trs)
    let ?txs = "rev (sort_key tx_created_at
                   (filter (\<lambda>t. tx_account_number t = Some n) (transactions d)))"
    let ?merged = "sort_recent_first (map transaction_entry_of ?txs
                     @ map (transfer_entry_of d) trs)"
    have ms: "mset ?merged
          = mset (map transaction_entry_of
                   (filter (\<lambda>t. tx_account_number t = Some n) (transactions d)))
            + mset (map (transfer_entry_of d)
                   (filter (\<lambda>t. tr_from_account_id t = acc_id a
                                \<or> tr_to_account_id t = acc_id a) (transfers d)))"
      unfolding sort_recent_first_mset using 1(7) by simp
    have so: "sorted_wrt (\<lambda>x y. getTime y \<le> getTime x) ?merged"
      by (rule sort_recent_first_sorted)
    have dflt: "gt_limit gt = None \<or> gt_limit gt = Some [] \<longrightarrow>
            body r = Transactions_body (take 50 ?merged)"
      unfolding 1(8) by (auto simp: or_else_def parseInt_50 slice0_def)
    have lim: "\<forall>l k. gt_limit gt = Some l \<and> l \<noteq> [] \<and> parseInt l = Some (int k) \<longrightarrow>
            body r = Transactions_body (take k ?merged)"
      unfolding 1(8) by (auto simp: or_else_def slice0_def)
    show ?thesis
      apply (rule exI[of _ u], rule exI[of _ n], rule exI[of _ a], rule exI[of _ ?merged])
      apply (intro conjI)
      apply (rule 1(1) 1(2) 1(4) 1(5) 1(6) ms so dflt lim)+
      done
  qed
qed

theorem get_transactions_listing_witness:
  "status (fst (get_transactions env_ok db2
       (get_transactions_of ''1000000001'' (Some (utf16 ''2''))))) = 200
   \<and> parseInt (utf16 ''2'') = Some (int 2)
   \<and> body (fst (get_transactions env_ok db2
       (get_transactions_of ''1000000001'' (Some (utf16 ''2'')))))
     = Transactions_body [transaction_entry_of tx2, transfer_entry_of db2 tr1]
   \<and> (\<exists>merged. sorted_wrt (\<lambda>x y. getTime y \<le> getTime x) merged
        \<and> body (fst (get_transactions env_ok db2
             (get_transactions_of ''1000000001'' (Some (utf16 ''2'')))))
           = Transactions_body (take 2 merged))
   \<and> status (fst (get_transactions env_ok db2
       (get_transactions_of ''1000000001'' None))) = 200
   \<and> body (fst (get_transactions env_ok db2 (get_transactions_of ''1000000001'' None)))
     = Transactions_body
         [transaction_entry_of tx2, transfer_entry_of db2 tr1, transaction_entry_of tx1]"
proof -
  let ?q = "get_transactions_of ''1000000001'' (Some (utf16 ''2''))"
  let ?g = "get_transactions env_ok db2 ?q"
  let ?h = "get_transactions env_ok db2 (get_transactions_of ''1000000001'' None)"
  have g: "?g = (fst ?g, snd ?g)" by simp
  have m: "gt_method ?q \<noteq> OPTIONS" by (simp add: get_transactions_of_def)
  have ok: "status (fst ?g) = 200" by (simp add: eval_defs query_defs)
  have p: "parseInt (utf16 ''2'') = Some (int 2)"
    by (simp add: parseInt_def is_space_def digit_value_def utf16_def)
  have l: "gt_limit ?q = Some (utf16 ''2'')" "utf16 ''2'' \<noteq> []"
    by (simp_all add: get_transactions_of_def utf16_def)
  have b: "body (fst ?g)
     = Transactions_body [transaction_entry_of tx2, transfer_entry_of db2 tr1]"
    by (simp add: eval_defs query_defs)
  have okh: "status (fst ?h) = 200" by (simp add: eval_defs query_defs)
  have bh: "body (fst ?h) = Transactions_body
         [transaction_entry_of tx2, transfer_entry_of db2 tr1, transaction_entry_of tx1]"
    by (simp add: eval_defs query_defs)
  from get_transactions_listing[where e = env_ok and d = db2 and gt = ?q and r = "fst ?g"
      and s = "snd ?g"] g m ok
  obtain merged where "sorted_wrt (\<lambda>x y. getTime y \<le> getTime x) merged"
     "\<forall>l k. gt_limit ?q = Some l \<and> l \<noteq> [] \<and> parseInt l = Some (int k) \<longrightarrow>
            body (fst ?g) = Transactions_body (take k merged)"
    by blast
  with l p have "\<exists>merged. sorted_wrt (\<lambda>x y. getTime y \<le> getTime x) merged
        \<and> body (fst ?g) = Transactions_body (take 2 merged)"
    by blast
  with ok p b okh bh show ?thesis by blast
qed

text \<open>
  The claim as it was stated has no condition on the limit. With the limit -1 and three
  entries to list, the response has two entries, which is not at most -1.
\<close>

theorem get_transactions_listing_counterexample:
  "status (fst (get_transactions env_ok db2
       (get_transactions_of ''1000000001'' (Some (utf16 ''-1''))))) = 200
   \<and> parseInt (utf16 ''-1'') = Some (- 1)
   \<and> body (fst (get_transactions env_ok db2
       (get_transactions_of ''1000000001'' (Some (utf16 ''-1'')))))
     = Transactions_body [transaction_entry_of tx2, transfer_entry_of db2 tr1]
   \<and> \<not> int (length [transaction_entry_of tx2, transfer_entry_of db2 tr1]) \<le> - 1"
  by (simp add: eval_defs query_defs)

end
